theory Spec2Isabelle
  imports Complex_Main
begin

section \<open>ffmpeg-nmlz: peak normalisation of audio files through FFmpeg\<close>

text \<open>
  A shallow embedding of \<^verbatim>\<open>src/ffmpeg_nmlz/__main__.py\<close> (and of the path
  derivation of the older \<^verbatim>\<open>src/ffmpeg_nmlz/main.py\<close>). The program resolves its
  command line into an output directory, a format configuration and a list of input
  files, and then calls the external \<^verbatim>\<open>ffmpeg\<close> binary twice per file: once to measure
  the peak volume and once to re-encode with a gain.

  Modelling decisions, which hold for the whole development:
  \<^item> Python strings are \<^typ>\<open>string\<close>; on this character range the regular-expression
    class \<^verbatim>\<open>\d\<close> is the ten ASCII digits.
  \<^item> A Python \<^verbatim>\<open>float\<close> is the rational number it denotes. The program only parses
    decimals, takes \<^verbatim>\<open>abs\<close> and \<^verbatim>\<open>max\<close> and formats; \<^verbatim>\<open>abs\<close> and \<^verbatim>\<open>max\<close>
    are exact on floating-point numbers, and the two formatting functions are parameters
    of the model. Rounding of a decimal to the nearest double is not modelled.
  \<^item> A \<^verbatim>\<open>pathlib.Path\<close> is a POSIX pure path: an absolute flag and the list of its
    components (the special root \<^verbatim>\<open>//\<close> is not distinguished from \<^verbatim>\<open>/\<close>).
  \<^item> The file system and the external binary are parameters: a record of operations on
    an abstract world \<^typ>\<open>'w\<close>. Operations that change the world return the new one.
  \<^item> Every \<^verbatim>\<open>raise\<close> is a value \<open>Inl e\<close> of a sum type.
\<close>

subsection \<open>Errors\<close>

text \<open>
  \<^verbatim>\<open>FfmpegNmlzError\<close> is the one exception class of the application; it carries its
  message. The other constructors are the built-in exceptions that can leave the
  functions modelled here: \<^verbatim>\<open>m.group(1)\<close> on \<^verbatim>\<open>None\<close> raises \<^verbatim>\<open>AttributeError\<close>,
  \<^verbatim>\<open>float\<close> raises \<^verbatim>\<open>ValueError\<close>, \<^verbatim>\<open>Path.glob\<close> raises
  \<^verbatim>\<open>NotImplementedError\<close> or \<^verbatim>\<open>ValueError\<close> on patterns it does not accept, and
  in \<^verbatim>\<open>main.py\<close> \<^verbatim>\<open>resolve(strict=True)\<close> raises \<^verbatim>\<open>FileNotFoundError\<close>.
\<close>

datatype error =
    FfmpegNmlzError string
  | AttributeError
  | ValueError
  | NotImplementedError
  | FileNotFoundError

subsection \<open>Characters and text\<close>

definition newline :: char where
  "newline = CHR 0x0A"

definition is_digit :: "char \<Rightarrow> bool" where
  "is_digit c = (c \<in> set ''0123456789'')"

definition is_letter :: "char \<Rightarrow> bool" where
  "is_letter c = (c \<in> set ''abcdefghijklmnopqrstuvwxyzABCDEFGHIJKLMNOPQRSTUVWXYZ'')"

text \<open>\<^verbatim>\<open>s.startswith(p)\<close>, returning the rest of \<open>s\<close> after \<open>p\<close>.\<close>

fun strip_prefix :: "string \<Rightarrow> string \<Rightarrow> string option" where
  "strip_prefix [] s = Some s"
| "strip_prefix (p # ps) [] = None"
| "strip_prefix (p # ps) (c # cs) = (if p = c then strip_prefix ps cs else None)"

text \<open>\<^verbatim>\<open>s.split(sep)\<close> for a one-character separator.\<close>

fun split_on :: "char \<Rightarrow> string \<Rightarrow> string list" where
  "split_on sep [] = [[]]"
| "split_on sep (c # cs) =
     (if c = sep then [] # split_on sep cs
      else (case split_on sep cs of
              [] \<Rightarrow> [[c]]
            | w # ws \<Rightarrow> (c # w) # ws))"

text \<open>\<^verbatim>\<open>sep.join(xs)\<close>.\<close>

fun join :: "string \<Rightarrow> string list \<Rightarrow> string" where
  "join sep [] = []"
| "join sep [x] = x"
| "join sep (x # y # ys) = x @ sep @ join sep (y # ys)"

text \<open>\<^verbatim>\<open>s.rfind(c)\<close>: the index of the last \<open>c\<close> in \<open>s\<close>; \<open>None\<close> is Python's \<open>-1\<close>.\<close>

fun rfind :: "char \<Rightarrow> string \<Rightarrow> nat option" where
  "rfind c [] = None"
| "rfind c (x # xs) =
     (case rfind c xs of
        Some i \<Rightarrow> Some (Suc i)
      | None \<Rightarrow> if x = c then Some 0 else None)"

subsection \<open>Paths\<close>

datatype path = PosixPath (is_absolute: bool) (names: "string list")

text \<open>
  \<^verbatim>\<open>Path(s)\<close>: the components between slashes, without the empty ones and without
  \<^verbatim>\<open>.\<close>; the path is absolute when \<open>s\<close> starts with a slash.
\<close>

definition keep_component :: "string \<Rightarrow> bool" where
  "keep_component n = (if n = [] then False else if n = ''.'' then False else True)"

definition Path :: "string \<Rightarrow> path" where
  "Path s = PosixPath (take 1 s = ''/'') (filter keep_component (split_on CHR ''/'' s))"

text \<open>\<^verbatim>\<open>str(p)\<close>.\<close>

definition str :: "path \<Rightarrow> string" where
  "str p =
     (if is_absolute p then ''/'' @ join ''/'' (names p)
      else if names p = [] then ''.''
      else join ''/'' (names p))"

text \<open>\<^verbatim>\<open>p.name\<close>: the last component, empty for the root and for \<^verbatim>\<open>.\<close>.\<close>

definition name :: "path \<Rightarrow> string" where
  "name p = (if names p = [] then [] else last (names p))"

text \<open>
  \<^verbatim>\<open>p.suffix\<close> and \<^verbatim>\<open>p.stem\<close>, as pathlib defines them up to Python 3.13:
  \<^verbatim>\<open>i = name.rfind('.')\<close>, and the name is split at \<open>i\<close> when
  \<^verbatim>\<open>0 < i < len(name) - 1\<close>.
\<close>

definition suffix_of :: "string \<Rightarrow> string" where
  "suffix_of n =
     (case rfind CHR ''.'' n of
        None \<Rightarrow> []
      | Some i \<Rightarrow> if 0 < i \<and> Suc i < length n then drop i n else [])"

definition stem_of :: "string \<Rightarrow> string" where
  "stem_of n =
     (case rfind CHR ''.'' n of
        None \<Rightarrow> n
      | Some i \<Rightarrow> if 0 < i \<and> Suc i < length n then take i n else n)"

definition suffix :: "path \<Rightarrow> string" where
  "suffix p = suffix_of (name p)"

definition stem :: "path \<Rightarrow> string" where
  "stem p = stem_of (name p)"

text \<open>\<^verbatim>\<open>p.parent\<close>.\<close>

definition parent :: "path \<Rightarrow> path" where
  "parent p = PosixPath (is_absolute p) (butlast (names p))"

text \<open>
  \<^verbatim>\<open>p / s\<close> for a string \<open>s\<close>: an absolute right operand replaces the left one,
  a relative one is appended.
\<close>

definition joinpath :: "path \<Rightarrow> string \<Rightarrow> path" where
  "joinpath p s =
     (if take 1 s = ''/'' then Path s
      else PosixPath (is_absolute p) (names p @ names (Path s)))"

subsection \<open>Format configurations and the preset table\<close>

record FormatConfig =
  encoder :: string
  extension :: string
  bitrate :: "string option"

text \<open>\<^verbatim>\<open>PRESET_INFO\<close>: preset name to encoder, default extension and default bitrate.\<close>

definition PRESET_INFO :: "(string \<times> FormatConfig) list" where
  "PRESET_INFO =
     [(''m4a'', \<lparr>encoder = ''libfdk_aac'', extension = ''m4a'', bitrate = Some ''128K''\<rparr>),
      (''aac'', \<lparr>encoder = ''libfdk_aac'', extension = ''m4a'', bitrate = Some ''128K''\<rparr>),
      (''mp3'', \<lparr>encoder = ''libmp3lame'', extension = ''mp3'', bitrate = Some ''192K''\<rparr>),
      (''opus'', \<lparr>encoder = ''libopus'', extension = ''opus'', bitrate = Some ''128K''\<rparr>),
      (''ogg'', \<lparr>encoder = ''libvorbis'', extension = ''ogg'', bitrate = Some ''160K''\<rparr>),
      (''wav'', \<lparr>encoder = ''pcm_s16le'', extension = ''wav'', bitrate = None\<rparr>),
      (''flac'', \<lparr>encoder = ''flac'', extension = ''flac'', bitrate = None\<rparr>)]"

subsection \<open>The target gain\<close>

text \<open>
  Line 214 of \<^verbatim>\<open>do_normalizing\<close> (and line 79 of \<^verbatim>\<open>normalize\<close> in
  \<^verbatim>\<open>main.py\<close>): \<^verbatim>\<open>target_volume = max(abs(max_volume), 0)\<close>.
\<close>

definition target_volume :: "rat \<Rightarrow> rat" where
  "target_volume max_volume = max \<bar>max_volume\<bar> 0"

subsection \<open>Removing duplicate files\<close>

text \<open>
  Line 173: \<^verbatim>\<open>list(({k: None for k in input_files}).keys())\<close>. A Python dictionary
  keeps its keys in insertion order, and storing under a key that is already present
  does not move it. \<open>dict_store\<close> is one store on the list of keys, \<open>dict_keys\<close> the
  comprehension.
\<close>

definition dict_store :: "'a list \<Rightarrow> 'a \<Rightarrow> 'a list" where
  "dict_store ks k = (if k \<in> set ks then ks else ks @ [k])"

definition dict_keys :: "'a list \<Rightarrow> 'a list" where
  "dict_keys xs = foldl dict_store [] xs"

definition remove_duplicates :: "path list \<Rightarrow> path list" where
  "remove_duplicates input_files = dict_keys input_files"

text \<open>The index of the first occurrence of \<open>x\<close> in \<open>xs\<close> (\<^verbatim>\<open>xs.index(x)\<close>).\<close>

definition first_index :: "'a list \<Rightarrow> 'a \<Rightarrow> nat" where
  "first_index xs x = length (takeWhile (\<lambda>y. y \<noteq> x) xs)"

subsection \<open>The two regular expressions\<close>

text \<open>
  \<^verbatim>\<open>VOLUME_REGEX = re.compile(r'max_volume: ([\-\d.]+) dB\n')\<close>.
  \<open>VOLUME_REGEX_match\<close> matches at the start of a text and returns group 1. The class
  \<^verbatim>\<open>[\-\d.]\<close> does not contain the space that must follow the group, so the only run
  of class characters that can be followed by \<^verbatim>\<open>" dB\n"\<close> is the longest one: the
  greedy match and every backtracking alternative agree.
\<close>

definition is_volume_char :: "char \<Rightarrow> bool" where
  "is_volume_char c = (c = CHR ''-'' \<or> is_digit c \<or> c = CHR ''.'')"

definition VOLUME_REGEX_match :: "string \<Rightarrow> string option" where
  "VOLUME_REGEX_match s =
     (case strip_prefix ''max_volume: '' s of
        None \<Rightarrow> None
      | Some r \<Rightarrow>
          if takeWhile is_volume_char r = [] then None
          else (case strip_prefix ('' dB'' @ [newline]) (dropWhile is_volume_char r) of
                  None \<Rightarrow> None
                | Some _ \<Rightarrow> Some (takeWhile is_volume_char r)))"

text \<open>\<^verbatim>\<open>VOLUME_REGEX.search(text)\<close>: the match at the leftmost position that has one.\<close>

fun VOLUME_REGEX_search :: "string \<Rightarrow> string option" where
  "VOLUME_REGEX_search [] = None"
| "VOLUME_REGEX_search (c # cs) =
     (case VOLUME_REGEX_match (c # cs) of
        Some g \<Rightarrow> Some g
      | None \<Rightarrow> VOLUME_REGEX_search cs)"

text \<open>
  \<^verbatim>\<open>RE_PRESET = re.compile(r'([a-zA-Z]+)(\d+)?')\<close> with \<^verbatim>\<open>fullmatch\<close>, returning
  \<^verbatim>\<open>groups()\<close>. Letters and digits are disjoint classes, so the letters group is the
  longest run of letters at the start; the rest must be digits, and an empty rest
  leaves group 2 unmatched (\<^verbatim>\<open>None\<close>).
\<close>

definition RE_PRESET_fullmatch :: "string \<Rightarrow> (string \<times> string option) option" where
  "RE_PRESET_fullmatch s =
     (if takeWhile is_letter s = [] then None
      else if dropWhile is_letter s = [] then Some (takeWhile is_letter s, None)
      else if list_all is_digit (dropWhile is_letter s)
        then Some (takeWhile is_letter s, Some (dropWhile is_letter s))
      else None)"

subsection \<open>Numbers and text\<close>

text \<open>
  \<^verbatim>\<open>float(s)\<close> on the strings group 1 of \<^verbatim>\<open>VOLUME_REGEX\<close> can capture (minus
  signs, digits and dots): an optional minus sign, then digits with at most one dot and
  at least one digit. Everything else raises \<^verbatim>\<open>ValueError\<close>.
\<close>

definition digit_value :: "char \<Rightarrow> nat" where
  "digit_value c = of_char c - 48"

definition decimal :: "string \<Rightarrow> nat" where
  "decimal ds = foldl (\<lambda>n c. 10 * n + digit_value c) 0 ds"

definition float_unsigned :: "string \<Rightarrow> error + rat" where
  "float_unsigned s =
     (case dropWhile is_digit s of
        [] \<Rightarrow> if s = [] then Inl ValueError else Inr (of_nat (decimal s))
      | c # frac_digits \<Rightarrow>
          if c = CHR ''.'' \<and> list_all is_digit frac_digits
             \<and> takeWhile is_digit s @ frac_digits \<noteq> []
          then Inr (of_nat (decimal (takeWhile is_digit s @ frac_digits)) / 10 ^ length frac_digits)
          else Inl ValueError)"

definition py_float :: "string \<Rightarrow> error + rat" where
  "py_float s =
     (case s of
        [] \<Rightarrow> Inl ValueError
      | c # r \<Rightarrow>
          if c = CHR ''-'' then map_sum id uminus (float_unsigned r)
          else float_unsigned s)"

text \<open>\<^verbatim>\<open>str(n)\<close> for a natural number, as the f-string of the progress line needs it.\<close>

fun str_nat :: "nat \<Rightarrow> string" where
  "str_nat n =
     (if n < 10 then [char_of (48 + n)]
      else str_nat (n div 10) @ [char_of (48 + n mod 10)])"

declare str_nat.simps [simp del]

subsection \<open>The environment: file system and external binary\<close>

text \<open>
  What \<^verbatim>\<open>Popen\<close> followed by \<^verbatim>\<open>communicate\<close> can do: \<^verbatim>\<open>Popen\<close> raises
  \<^verbatim>\<open>FileNotFoundError\<close>, or it raises anything else, or the process runs to its end,
  which gives a return code and the text of standard output merged with standard error.
  (\<^verbatim>\<open>communicate\<close> is taken to return: a process that never ends and output that
  is not UTF-8 are outside the model.)
\<close>

datatype popen_result =
    Popen_FileNotFoundError
  | Popen_OtherError
  | Popen_Exited int string

text \<open>
  The operations of the standard library the program calls, on a world \<^typ>\<open>'w\<close>:
  \<^item> \<open>is_dir\<close>: \<^verbatim>\<open>Path.is_dir()\<close>;
  \<^item> \<open>makedirs\<close>: \<^verbatim>\<open>os.makedirs(d, exist_ok=True)\<close>; \<open>False\<close> when it raises;
  \<^item> \<open>resolve\<close>: \<^verbatim>\<open>Path.resolve(strict=True)\<close>; \<open>None\<close> when it raises;
  \<^item> \<open>open_read\<close>: \<^verbatim>\<open>open('rb')\<close>, \<^verbatim>\<open>read(1)\<close>, \<^verbatim>\<open>close()\<close>; \<open>False\<close> when one
    of them raises;
  \<^item> \<open>glob\<close>: the list of paths \<^verbatim>\<open>Path('.').glob(pattern)\<close> yields, or the exception
    it raises;
  \<^item> \<open>Popen\<close>: starting a process and waiting for it;
  \<^item> \<open>float_repr\<close>, \<open>float_format_1f\<close>: \<^verbatim>\<open>f'{x}'\<close> and \<^verbatim>\<open>f'{x:.1f}'\<close> of a float.
\<close>

record 'w system =
  is_dir :: "'w \<Rightarrow> path \<Rightarrow> bool"
  makedirs :: "'w \<Rightarrow> string \<Rightarrow> bool \<times> 'w"
  resolve :: "'w \<Rightarrow> path \<Rightarrow> path option"
  open_read :: "'w \<Rightarrow> path \<Rightarrow> bool"
  glob :: "'w \<Rightarrow> string \<Rightarrow> error + path list"
  Popen :: "'w \<Rightarrow> string list \<Rightarrow> popen_result \<times> 'w"
  float_repr :: "rat \<Rightarrow> string"
  float_format_1f :: "rat \<Rightarrow> string"

text \<open>
  The state of a run: the world, the lines printed to standard output and to standard
  error, and the command lines handed to \<^verbatim>\<open>Popen\<close> so far (a log the model keeps to
  say which files were processed).
\<close>

record 'w state =
  world :: 'w
  sys_stdout :: "string list"
  sys_stderr :: "string list"
  commands :: "string list list"

definition print :: "string \<Rightarrow> 'w state \<Rightarrow> 'w state" where
  "print line s = s\<lparr>sys_stdout := sys_stdout s @ [line]\<rparr>"

subsection \<open>Calling FFmpeg\<close>

definition call_ffmpeg :: "'w system \<Rightarrow> string list \<Rightarrow> 'w state \<Rightarrow> (error + string) \<times> 'w state" where
  "call_ffmpeg os params s =
     (case Popen os (world s) params of
        (r, w') \<Rightarrow>
          (case r of
             Popen_FileNotFoundError \<Rightarrow>
               Inl (FfmpegNmlzError ''FFmpeg is not installed. Please install FFmpeg first.'')
           | Popen_OtherError \<Rightarrow>
               Inl (FfmpegNmlzError ''Failed to start FFmpeg. Please check your FFmpeg installation.'')
           | Popen_Exited returncode out \<Rightarrow>
               if returncode \<noteq> 0 then Inl (FfmpegNmlzError ''FFmpeg exited abnormally.'')
               else Inr out,
           s\<lparr>world := w', commands := commands s @ [params]\<rparr>))"

text \<open>Lines 71 and 72 of \<^verbatim>\<open>ffmpeg_get_max_volume\<close>: from the captured text to the number.\<close>

definition parse_max_volume :: "string \<Rightarrow> error + rat" where
  "parse_max_volume out =
     (case VOLUME_REGEX_search out of
        None \<Rightarrow> Inl AttributeError
      | Some g \<Rightarrow> py_float g)"

definition detect_command :: "string \<Rightarrow> string list" where
  "detect_command in_path =
     [''ffmpeg'', ''-i'', in_path, ''-map'', ''0:a:0'', ''-af'', ''volumedetect'',
      ''-f'', ''null'', ''null'']"

definition ffmpeg_get_max_volume :: "'w system \<Rightarrow> string \<Rightarrow> 'w state \<Rightarrow> (error + rat) \<times> 'w state" where
  "ffmpeg_get_max_volume os in_path s =
     (case call_ffmpeg os (detect_command in_path) s of
        (Inl e, s') \<Rightarrow> (Inl e, s')
      | (Inr out, s') \<Rightarrow> (parse_max_volume out, s'))"

definition encode_command :: "'w system \<Rightarrow> string \<Rightarrow> string \<Rightarrow> rat \<Rightarrow> FormatConfig \<Rightarrow> string list" where
  "encode_command os in_path out_path volume format_config =
     [''ffmpeg'', ''-y'', ''-i'', in_path, ''-map'', ''0:a:0'',
      ''-af'', ''volume='' @ float_format_1f os volume @ ''dB'',
      ''-c:a'', encoder format_config]
     @ (case bitrate format_config of None \<Rightarrow> [] | Some b \<Rightarrow> [''-b:a'', b])
     @ [out_path]"

definition ffmpeg_convert_with_volume_filter ::
  "'w system \<Rightarrow> string \<Rightarrow> string \<Rightarrow> rat \<Rightarrow> FormatConfig \<Rightarrow> 'w state \<Rightarrow> (error + unit) \<times> 'w state" where
  "ffmpeg_convert_with_volume_filter os in_path out_path volume format_config s =
     (case call_ffmpeg os (encode_command os in_path out_path volume format_config) s of
        (Inl e, s') \<Rightarrow> (Inl e, s')
      | (Inr _, s') \<Rightarrow> (Inr (), s'))"

subsection \<open>Output paths\<close>

definition get_out_path :: "path \<Rightarrow> FormatConfig \<Rightarrow> path \<Rightarrow> path" where
  "get_out_path output_dir format_config in_path =
     joinpath output_dir (stem in_path @ ''-1.'' @ extension format_config)"

text \<open>
  The older entry point \<^verbatim>\<open>src/ffmpeg_nmlz/main.py\<close> writes WAV files only and
  derives the output path in \<^verbatim>\<open>get_path\<close>. \<open>default_out_path\<close> is its lines 57 to
  60, the case without an explicit output path; \<open>resolve_nonstrict\<close> stands for
  \<^verbatim>\<open>Path.resolve(strict=False)\<close>.
\<close>

definition default_out_path :: "path \<Rightarrow> path" where
  "default_out_path in_path =
     (if suffix in_path = ''.wav'' then joinpath (parent in_path) (stem in_path @ ''-1.wav'')
      else joinpath (parent in_path) (stem in_path @ ''.wav''))"

definition get_path ::
  "'w system \<Rightarrow> ('w \<Rightarrow> path \<Rightarrow> path) \<Rightarrow> 'w \<Rightarrow> string \<Rightarrow> string option \<Rightarrow> error + path \<times> path" where
  "get_path os resolve_nonstrict w in_path_str out_path_str =
     (case resolve os w (Path in_path_str) of
        None \<Rightarrow> Inl FileNotFoundError
      | Some in_path \<Rightarrow>
          (case out_path_str of
             None \<Rightarrow> Inr (in_path, resolve_nonstrict w (default_out_path in_path))
           | Some out_str \<Rightarrow>
               (let out_path =
                      (if str in_path = str (Path out_str)
                       then joinpath (parent in_path) (stem in_path @ ''-1.wav'')
                       else Path out_str)
                in if suffix out_path = ''.wav''
                   then Inr (in_path, resolve_nonstrict w out_path)
                   else Inl ValueError)))"

subsection \<open>Preparing the arguments\<close>

record args =
  args_output_dir :: string
  args_extension :: "string option"
  args_inputs :: "string list"

text \<open>
  In the error message \<^verbatim>\<open>path\<close> is the resolved path when \<^verbatim>\<open>resolve\<close> succeeded
  and opening failed, and the path as given when \<^verbatim>\<open>resolve\<close> itself raised.
\<close>

definition verify_and_canonicanize_path :: "'w system \<Rightarrow> 'w \<Rightarrow> path \<Rightarrow> error + path" where
  "verify_and_canonicanize_path os w p =
     (case resolve os w p of
        None \<Rightarrow> Inl (FfmpegNmlzError (''Failed to open file: '' @ str p))
      | Some p' \<Rightarrow>
          if open_read os w p' then Inr p'
          else Inl (FfmpegNmlzError (''Failed to open file: '' @ str p')))"

text \<open>The \<^verbatim>\<open>try\<close> block of lines 120 to 127.\<close>

definition prepare_output_dir :: "'w system \<Rightarrow> 'w \<Rightarrow> string \<Rightarrow> (error + path) \<times> 'w" where
  "prepare_output_dir os w d =
     (case (if is_dir os w (Path d) then (True, w) else makedirs os w (str (Path d))) of
        (created, w1) \<Rightarrow>
          if created then
            (case resolve os w1 (Path d) of
               None \<Rightarrow> (Inl (FfmpegNmlzError (''Unable to create output directory: '' @ d)), w1)
             | Some output_dir \<Rightarrow> (Inr output_dir, w1))
          else (Inl (FfmpegNmlzError (''Unable to create output directory: '' @ d)), w1))"

text \<open>
  One round of the loop of lines 134 to 149. The loop's variables are
  \<^verbatim>\<open>encoder, extension, bitrate\<close> (kept as one \<open>FormatConfig\<close>) and
  \<^verbatim>\<open>input_patterns\<close>.
\<close>

definition preset_step :: "FormatConfig \<times> string list \<Rightarrow> string \<Rightarrow> FormatConfig \<times> string list" where
  "preset_step st input_item =
     (case st of
        (fc, input_patterns) \<Rightarrow>
          (case RE_PRESET_fullmatch input_item of
             None \<Rightarrow> (fc, input_patterns @ [input_item])
           | Some (preset_name, parsed_bitrate) \<Rightarrow>
               (case map_of PRESET_INFO preset_name of
                  None \<Rightarrow> (fc, input_patterns @ [input_item])
                | Some preset \<Rightarrow>
                    (case parsed_bitrate of
                       None \<Rightarrow> (preset, input_patterns)
                     | Some b \<Rightarrow> (preset\<lparr>bitrate := Some (b @ ''K'')\<rparr>, input_patterns)))))"

text \<open>
  Lines 130 to 149: the loop, started from \<^verbatim>\<open>PRESET_INFO['wav']\<close> (a key of the
  table) and no patterns.
\<close>

definition find_presets :: "string list \<Rightarrow> FormatConfig \<times> string list" where
  "find_presets inputs = foldl preset_step (the (map_of PRESET_INFO ''wav''), []) inputs"

text \<open>The condition under which the loop takes an item for a preset (lines 136 and 139).\<close>

definition is_preset :: "string \<Rightarrow> bool" where
  "is_preset input_item =
     (case RE_PRESET_fullmatch input_item of
        None \<Rightarrow> False
      | Some (preset_name, parsed_bitrate) \<Rightarrow>
          (case map_of PRESET_INFO preset_name of None \<Rightarrow> False | Some _ \<Rightarrow> True))"

definition has_wildcard :: "string \<Rightarrow> bool" where
  "has_wildcard pattern = (CHR ''*'' \<in> set pattern \<or> CHR ''?'' \<in> set pattern)"

text \<open>The inner loop of lines 162 to 164, over the paths a pattern expands to.\<close>

fun verify_all :: "'w system \<Rightarrow> 'w \<Rightarrow> path list \<Rightarrow> path list \<Rightarrow> error + path list" where
  "verify_all os w [] input_files = Inr input_files"
| "verify_all os w (input_file # rest) input_files =
     (case verify_and_canonicanize_path os w input_file of
        Inl e \<Rightarrow> Inl e
      | Inr p \<Rightarrow> verify_all os w rest (input_files @ [p]))"

text \<open>
  The loop of lines 157 to 170. \<^verbatim>\<open>has_file\<close> is true after the inner loop exactly
  when the pattern expanded to at least one path.
\<close>

fun find_input_files :: "'w system \<Rightarrow> 'w \<Rightarrow> string list \<Rightarrow> path list \<Rightarrow> error + path list" where
  "find_input_files os w [] input_files = Inr input_files"
| "find_input_files os w (pattern # rest) input_files =
     (if has_wildcard pattern then
        (case glob os w pattern of
           Inl e \<Rightarrow> Inl e
         | Inr found \<Rightarrow>
             (case verify_all os w found input_files of
                Inl e \<Rightarrow> Inl e
              | Inr input_files' \<Rightarrow>
                  if found = [] then
                    Inl (FfmpegNmlzError (''No files found for pattern: '' @ pattern))
                  else find_input_files os w rest input_files'))
      else
        (case verify_and_canonicanize_path os w (Path pattern) of
           Inl e \<Rightarrow> Inl e
         | Inr p \<Rightarrow> find_input_files os w rest (input_files @ [p])))"

definition verify_and_prepare_args ::
  "'w system \<Rightarrow> args \<Rightarrow> 'w \<Rightarrow> (error + path \<times> FormatConfig \<times> path list) \<times> 'w" where
  "verify_and_prepare_args os a w =
     (case prepare_output_dir os w (args_output_dir a) of
        (Inl e, w1) \<Rightarrow> (Inl e, w1)
      | (Inr output_dir, w1) \<Rightarrow>
          (case find_presets (args_inputs a) of
             (fc, input_patterns) \<Rightarrow>
               (case find_input_files os w1 input_patterns [] of
                  Inl e \<Rightarrow> (Inl e, w1)
                | Inr input_files \<Rightarrow>
                    (Inr (output_dir,
                          (case args_extension a of
                             None \<Rightarrow> fc
                           | Some e \<Rightarrow> fc\<lparr>extension := e\<rparr>),
                          remove_duplicates input_files), w1))))"

subsection \<open>The run\<close>

text \<open>The body of the loop of \<^verbatim>\<open>do_normalizing\<close> (lines 208 to 220), for file number \<open>i\<close>.\<close>

definition normalize_file ::
  "'w system \<Rightarrow> path \<Rightarrow> FormatConfig \<Rightarrow> nat \<Rightarrow> path \<Rightarrow> 'w state \<Rightarrow> (error + unit) \<times> 'w state" where
  "normalize_file os output_dir format_config i in_path s =
     (case ffmpeg_get_max_volume os (str in_path)
             (print (''> File '' @ str_nat (i + 1) @ '': '' @ name in_path) s) of
        (Inl e, s1) \<Rightarrow> (Inl e, s1)
      | (Inr max_volume, s1) \<Rightarrow>
          ffmpeg_convert_with_volume_filter os
            (str in_path) (str (get_out_path output_dir format_config in_path))
            (target_volume max_volume) format_config
            (print (''    Encoding...'' @ [newline])
               (print (''    Max volume: '' @ float_repr os max_volume @ '' dB'') s1)))"

fun process_files ::
  "'w system \<Rightarrow> path \<Rightarrow> FormatConfig \<Rightarrow> nat \<Rightarrow> path list \<Rightarrow> 'w state \<Rightarrow> (error + unit) \<times> 'w state" where
  "process_files os output_dir format_config i [] s = (Inr (), s)"
| "process_files os output_dir format_config i (in_path # rest) s =
     (case normalize_file os output_dir format_config i in_path s of
        (Inl e, s') \<Rightarrow> (Inl e, s')
      | (Inr _, s') \<Rightarrow> process_files os output_dir format_config (Suc i) rest s')"

text \<open>The two command lines of one file: the measuring pass and the encoding pass.\<close>

definition file_commands :: "'w system \<Rightarrow> path \<Rightarrow> FormatConfig \<Rightarrow> path \<Rightarrow> rat \<Rightarrow> string list list" where
  "file_commands os output_dir format_config in_path volume =
     [detect_command (str in_path),
      encode_command os (str in_path) (str (get_out_path output_dir format_config in_path))
        volume format_config]"

text \<open>
  \<^verbatim>\<open>do_normalizing\<close>, from the parsed command line on (\<^verbatim>\<open>argparse\<close> is not
  modelled).
\<close>

definition do_normalizing :: "'w system \<Rightarrow> args \<Rightarrow> 'w state \<Rightarrow> (error + unit) \<times> 'w state" where
  "do_normalizing os a s =
     (case verify_and_prepare_args os a (world s) of
        (Inl e, w1) \<Rightarrow> (Inl e, s\<lparr>world := w1\<rparr>)
      | (Inr (output_dir, format_config, input_paths), w1) \<Rightarrow>
          process_files os output_dir format_config 0 input_paths (s\<lparr>world := w1\<rparr>))"

text \<open>
  \<^verbatim>\<open>main\<close> catches \<^verbatim>\<open>FfmpegNmlzError\<close> only, prints its message to standard error
  and returns; any other exception leaves \<^verbatim>\<open>main\<close>.
\<close>

definition main :: "'w system \<Rightarrow> args \<Rightarrow> 'w state \<Rightarrow> (error + unit) \<times> 'w state" where
  "main os a s =
     (case do_normalizing os a s of
        (Inl (FfmpegNmlzError msg), s') \<Rightarrow>
          (Inr (), s'\<lparr>sys_stderr := sys_stderr s' @ [newline # ''ERROR: '' @ msg]\<rparr>)
      | (r, s') \<Rightarrow> (r, s'))"

text \<open>
  The exit status of the Python process that runs \<^verbatim>\<open>main()\<close> as its last statement:
  0 when \<^verbatim>\<open>main\<close> returns, 1 when an exception leaves it.
\<close>

definition exit_status :: "error + unit \<Rightarrow> nat" where
  "exit_status r = (case r of Inr _ \<Rightarrow> 0 | Inl _ \<Rightarrow> 1)"

subsection \<open>An example environment\<close>

text \<open>
  A small environment to run the model on. The directory \<^verbatim>\<open>/out\<close> exists; every
  path but \<^verbatim>\<open>missing.wav\<close> resolves (a relative one against \<^verbatim>\<open>/music\<close>) and can
  be read; the pattern \<^verbatim>\<open>*.wav\<close> expands to \<^verbatim>\<open>a.wav\<close> and \<^verbatim>\<open>b.wav\<close> and every
  other pattern to nothing. The behaviour of the binary is the parameter \<open>run\<close>.
\<close>

definition example_float_text :: "rat \<Rightarrow> string" where
  "example_float_text v =
     (if v = 32 / 10 then ''3.2'' else if v = - 32 / 10 then ''-3.2'' else ''0.0'')"

definition example_system :: "(string list \<Rightarrow> popen_result) \<Rightarrow> unit system" where
  "example_system run =
     \<lparr>is_dir = (\<lambda>w p. p = PosixPath True [''out'']),
      makedirs = (\<lambda>w d. (True, w)),
      resolve = (\<lambda>w p. if name p = ''missing.wav'' then None
                        else if is_absolute p then Some p
                        else Some (PosixPath True (''music'' # names p))),
      open_read = (\<lambda>w p. True),
      glob = (\<lambda>w pattern. if pattern = ''*.wav''
                            then Inr [PosixPath False [''a.wav''], PosixPath False [''b.wav'']]
                            else Inr []),
      Popen = (\<lambda>w params. (run params, w)),
      float_repr = example_float_text,
      float_format_1f = example_float_text\<rparr>"

text \<open>A binary that reports a peak of \<open>-3.2\<close> dB and encodes without error.\<close>

definition ffmpeg_works :: "string list \<Rightarrow> popen_result" where
  "ffmpeg_works params = Popen_Exited 0 (''  max_volume: -3.2 dB'' @ [newline])"

text \<open>A binary that exits with status 1 whenever the file \<open>f\<close> is among its arguments.\<close>

definition ffmpeg_fails_on :: "string \<Rightarrow> string list \<Rightarrow> popen_result" where
  "ffmpeg_fails_on f params =
     (if f \<in> set params then Popen_Exited 1 [] else ffmpeg_works params)"

definition initial_state :: "unit state" where
  "initial_state = \<lparr>world = (), sys_stdout = [], sys_stderr = [], commands = []\<rparr>"

text \<open>A machine without the binary, and one on which it cannot be started.\<close>

definition ffmpeg_missing :: "string list \<Rightarrow> popen_result" where
  "ffmpeg_missing params = Popen_FileNotFoundError"

definition ffmpeg_unstartable :: "string list \<Rightarrow> popen_result" where
  "ffmpeg_unstartable params = Popen_OtherError"

definition example_args :: "string list \<Rightarrow> args" where
  "example_args inputs =
     \<lparr>args_output_dir = ''/out'', args_extension = None, args_inputs = inputs\<rparr>"

definition wav_config :: FormatConfig where
  "wav_config = \<lparr>encoder = ''pcm_s16le'', extension = ''wav'', bitrate = None\<rparr>"

section \<open>Properties\<close>

lemmas char_class_defs = is_digit_def is_letter_def is_volume_char_def

text \<open>Facts to run the model in the example environment.\<close>

lemma str_nat_examples:
  "str_nat (Suc 0) = ''1''" "str_nat (Suc (Suc 0)) = ''2''" "str_nat (Suc (Suc (Suc 0))) = ''3''"
  by code_simp+

lemmas example_run_defs =
  do_normalizing_def verify_and_prepare_args_def prepare_output_dir_def example_system_def
  example_args_def find_presets_def preset_step_def RE_PRESET_fullmatch_def char_class_defs
  PRESET_INFO_def has_wildcard_def verify_and_canonicanize_path_def Path_def keep_component_def
  name_def remove_duplicates_def dict_keys_def dict_store_def normalize_file_def
  ffmpeg_get_max_volume_def call_ffmpeg_def detect_command_def encode_command_def
  ffmpeg_convert_with_volume_filter_def parse_max_volume_def VOLUME_REGEX_match_def py_float_def
  float_unsigned_def decimal_def digit_value_def newline_def target_volume_def get_out_path_def
  joinpath_def stem_def stem_of_def str_def print_def ffmpeg_fails_on_def ffmpeg_works_def
  ffmpeg_missing_def initial_state_def example_float_text_def str_nat_examples
  file_commands_def wav_config_def

subsection \<open>The target gain\<close>

text \<open>
  The gain is the absolute value of the measured peak: never negative, and a positive
  peak is boosted, neither attenuated nor clamped to zero.
\<close>

lemma target_volume_abs:
  "target_volume v = max \<bar>v\<bar> 0 \<and> target_volume v = \<bar>v\<bar> \<and> 0 \<le> target_volume v"
  by (simp add: target_volume_def)

text \<open>
  The gain handed to the encoding pass is this number: once the measuring pass has
  returned \<open>v\<close>, the body of the loop is the encoding call with \<open>target_volume v\<close>.
\<close>

lemma normalize_file_encodes:
  assumes "ffmpeg_get_max_volume os (str in_path)
             (print (''> File '' @ str_nat (i + 1) @ '': '' @ name in_path) s) = (Inr v, s1)"
  shows "normalize_file os output_dir fc i in_path s
     = ffmpeg_convert_with_volume_filter os (str in_path) (str (get_out_path output_dir fc in_path))
         (target_volume v) fc
         (print (''    Encoding...'' @ [newline]) (print (''    Max volume: '' @ float_repr os v @ '' dB'') s1))"
  using assms by (simp add: normalize_file_def)

subsection \<open>Extracting the volume\<close>

lemma strip_prefix_append: "strip_prefix p (p @ s) = Some s"
  by (induction p) auto

lemma VOLUME_REGEX_match_Nil: "VOLUME_REGEX_match [] = None"
  by (simp add: VOLUME_REGEX_match_def)

lemma takeWhile_volume_char:
  "list_all is_volume_char num \<Longrightarrow> takeWhile is_volume_char (num @ CHR '' '' # r) = num"
  by (induction num) (auto simp: char_class_defs)

lemma dropWhile_volume_char:
  "list_all is_volume_char num \<Longrightarrow> dropWhile is_volume_char (num @ CHR '' '' # r) = CHR '' '' # r"
  by (induction num) (auto simp: char_class_defs)

lemma VOLUME_REGEX_match_here:
  assumes "num \<noteq> []" and "list_all is_volume_char num"
  shows "VOLUME_REGEX_match (''max_volume: '' @ num @ '' dB'' @ [newline] @ post) = Some num"
  using assms
  by (simp add: VOLUME_REGEX_match_def takeWhile_volume_char dropWhile_volume_char)

lemma VOLUME_REGEX_search_match:
  "VOLUME_REGEX_match s = Some g \<Longrightarrow> VOLUME_REGEX_search s = Some g"
  by (cases s) (auto simp: VOLUME_REGEX_match_Nil)

lemma VOLUME_REGEX_search_skip:
  "n \<le> length out \<Longrightarrow> \<forall>i<n. VOLUME_REGEX_match (drop i out) = None
   \<Longrightarrow> VOLUME_REGEX_search out = VOLUME_REGEX_search (drop n out)"
proof (induction n arbitrary: out)
  case 0
  then show ?case by simp
next
  case (Suc n)
  then obtain c cs where out: "out = c # cs"
    by (cases out) auto
  from Suc.prems(2) have "VOLUME_REGEX_match (drop 0 out) = None"
    by blast
  then have here: "VOLUME_REGEX_match (c # cs) = None"
    by (simp add: out)
  have "\<forall>i<n. VOLUME_REGEX_match (drop i cs) = None"
  proof (intro allI impI)
    fix i assume "i < n"
    then have "VOLUME_REGEX_match (drop (Suc i) out) = None"
      using Suc.prems(2) by simp
    then show "VOLUME_REGEX_match (drop i cs) = None"
      by (simp add: out)
  qed
  moreover have "n \<le> length cs"
    using Suc.prems(1) by (simp add: out)
  ultimately have "VOLUME_REGEX_search cs = VOLUME_REGEX_search (drop n cs)"
    by (rule Suc.IH [rotated])
  then show ?case
    by (simp add: out here)
qed

lemma py_float_examples:
  "py_float ''-3.2'' = Inr (- 32 / 10)" "py_float ''1.5'' = Inr (15 / 10)"
  by (simp_all add: py_float_def float_unsigned_def decimal_def digit_value_def char_class_defs)

text \<open>
  Claim C2, as the code has it. The regular expression also asks for the newline that
  ends the line, and \<^verbatim>\<open>search\<close> returns the leftmost match. So: when the leftmost
  match of \<^verbatim>\<open>max_volume: <number> dB\<close> followed by a newline in the captured text
  starts right after \<open>pre\<close> (no match starts inside \<open>pre\<close>), with a number \<open>num\<close> of
  one or more characters among minus sign, digits and dot, extraction returns
  \<^verbatim>\<open>float(num)\<close>; this is \<open>-3.2\<close> for \<^verbatim>\<open>-3.2\<close> and \<open>1.5\<close> for \<^verbatim>\<open>1.5\<close>.
\<close>

theorem parse_max_volume_first_match:
  assumes "\<forall>i<length pre.
             VOLUME_REGEX_match (drop i (pre @ ''max_volume: '' @ num @ '' dB'' @ [newline] @ post)) = None"
    and "num \<noteq> []" and "list_all is_volume_char num"
  shows "parse_max_volume (pre @ ''max_volume: '' @ num @ '' dB'' @ [newline] @ post) = py_float num
         \<and> py_float ''-3.2'' = Inr (- 32 / 10) \<and> py_float ''1.5'' = Inr (15 / 10)"
proof -
  let ?text = "pre @ ''max_volume: '' @ num @ '' dB'' @ [newline] @ post"
  have "VOLUME_REGEX_search ?text = VOLUME_REGEX_search (drop (length pre) ?text)"
    using assms(1) by (intro VOLUME_REGEX_search_skip) simp_all
  also have "\<dots> = VOLUME_REGEX_search (''max_volume: '' @ num @ '' dB'' @ [newline] @ post)"
    by simp
  also have "\<dots> = Some num"
    using assms(2,3) by (intro VOLUME_REGEX_search_match VOLUME_REGEX_match_here)
  finally show ?thesis
    by (simp add: parse_max_volume_def py_float_examples)
qed

text \<open>The theorem on three lines of output, as \<^verbatim>\<open>volumedetect\<close> prints them.\<close>

theorem parse_max_volume_first_match_witness:
  "parse_max_volume (''  mean_volume: -20.1 dB'' @ [newline] @ ''  max_volume: -3.2 dB'' @ [newline] @ ''  histogram_3db: 7'' @ [newline]) = Inr (- 32 / 10)"
  using parse_max_volume_first_match [of "''  mean_volume: -20.1 dB'' @ [newline] @ ''  ''" "''-3.2''" "''  histogram_3db: 7'' @ [newline]"]
  by (simp add: All_less_Suc VOLUME_REGEX_match_def char_class_defs newline_def)

text \<open>
  Claim C2 as stated fails. A text that contains \<^verbatim>\<open>max_volume: -3.2 dB\<close> with no
  newline after it has no match, and \<^verbatim>\<open>m.group(1)\<close> raises; a text that contains it
  after an earlier match gives the earlier number.
\<close>

theorem parse_max_volume_counterexample:
  "parse_max_volume ''max_volume: -3.2 dB'' = Inl AttributeError
   \<and> parse_max_volume (''max_volume: -5.0 dB'' @ [newline] @ ''max_volume: -3.2 dB'' @ [newline])
       = Inr (- 5)"
  by (simp add: parse_max_volume_def VOLUME_REGEX_match_def char_class_defs py_float_def
      float_unsigned_def decimal_def digit_value_def newline_def)

subsection \<open>Preset tokens\<close>

text \<open>
  Claim C3 fails on the code for the presets \<^verbatim>\<open>mp3\<close> and \<^verbatim>\<open>m4a\<close>, whose names
  contain a digit. The table has them, but \<^verbatim>\<open>RE_PRESET\<close> puts only letters into the
  name group, so \<^verbatim>\<open>mp3320\<close> is split into \<^verbatim>\<open>mp\<close> and \<^verbatim>\<open>3320\<close>, \<^verbatim>\<open>mp\<close> is not
  in the table, and the token becomes a file pattern while the format stays the
  default. The tokens \<^verbatim>\<open>mp3\<close> and \<^verbatim>\<open>m4a\<close> themselves fare the same.
\<close>

theorem preset_mp3_not_recognised:
  "map_of PRESET_INFO ''mp3''
     = Some \<lparr>encoder = ''libmp3lame'', extension = ''mp3'', bitrate = Some ''192K''\<rparr>
   \<and> RE_PRESET_fullmatch ''mp3320'' = Some (''mp'', Some ''3320'')
   \<and> find_presets [''mp3320'']
       = (\<lparr>encoder = ''pcm_s16le'', extension = ''wav'', bitrate = None\<rparr>, [''mp3320''])
   \<and> find_presets [''mp3'']
       = (\<lparr>encoder = ''pcm_s16le'', extension = ''wav'', bitrate = None\<rparr>, [''mp3''])
   \<and> find_presets [''m4a'']
       = (\<lparr>encoder = ''pcm_s16le'', extension = ''wav'', bitrate = None\<rparr>, [''m4a''])"
  by (simp add: find_presets_def preset_step_def RE_PRESET_fullmatch_def char_class_defs
      PRESET_INFO_def)

text \<open>
  What the loop does do. A preset whose name consists of letters (\<^verbatim>\<open>aac\<close>,
  \<^verbatim>\<open>opus\<close>, \<^verbatim>\<open>ogg\<close>, \<^verbatim>\<open>wav\<close>, \<^verbatim>\<open>flac\<close>), followed by digits, selects the
  preset with the digits and \<^verbatim>\<open>K\<close> as bitrate, whatever was selected before: the
  last preset token wins.
\<close>

lemma digit_not_letter: "is_digit c \<Longrightarrow> \<not> is_letter c"
  unfolding char_class_defs by auto

lemma letters_then_digits:
  assumes "list_all is_letter P" and "list_all is_digit D"
  shows "takeWhile is_letter (P @ D) = P" and "dropWhile is_letter (P @ D) = D"
proof -
  have no_letter: "\<And>c. c \<in> set D \<Longrightarrow> \<not> is_letter c"
    using assms(2) digit_not_letter unfolding list_all_iff by blast
  have d: "takeWhile is_letter D = []"
    using no_letter by (cases D) auto
  have d': "dropWhile is_letter D = D"
    using no_letter by (cases D) auto
  show "takeWhile is_letter (P @ D) = P"
    using assms(1) d by (induction P) auto
  show "dropWhile is_letter (P @ D) = D"
    using assms(1) d' by (induction P) auto
qed

lemma RE_PRESET_fullmatch_letters_digits:
  assumes "P \<noteq> []" and "list_all is_letter P" and "D \<noteq> []" and "list_all is_digit D"
  shows "RE_PRESET_fullmatch (P @ D) = Some (P, Some D)"
  using assms by (simp add: RE_PRESET_fullmatch_def letters_then_digits)

lemma preset_step_letters_preset:
  assumes "map_of PRESET_INFO P = Some preset" and "list_all is_letter P"
    and "D \<noteq> []" and "list_all is_digit D"
  shows "preset_step (fc, ps) (P @ D) = (preset\<lparr>bitrate := Some (D @ ''K'')\<rparr>, ps)"
proof -
  have "P \<noteq> []"
    using assms(1) by (auto simp: PRESET_INFO_def)
  then have "RE_PRESET_fullmatch (P @ D) = Some (P, Some D)"
    using assms(2-4) by (rule RE_PRESET_fullmatch_letters_digits)
  then show ?thesis
    using assms(1) by (simp add: preset_step_def)
qed

lemma find_presets_last_wins:
  assumes "map_of PRESET_INFO P = Some preset" and "list_all is_letter P"
    and "D \<noteq> []" and "list_all is_digit D"
  shows "fst (find_presets (tokens @ [P @ D])) = preset\<lparr>bitrate := Some (D @ ''K'')\<rparr>"
proof -
  obtain fc ps where "foldl preset_step (the (map_of PRESET_INFO ''wav''), []) tokens = (fc, ps)"
    by (cases "foldl preset_step (the (map_of PRESET_INFO ''wav''), []) tokens")
  then show ?thesis
    using preset_step_letters_preset [OF assms] by (simp add: find_presets_def)
qed

lemma letter_presets:
  "list_all is_letter ''aac''" "list_all is_letter ''opus''" "list_all is_letter ''ogg''"
  "list_all is_letter ''wav''" "list_all is_letter ''flac''"
  by (simp_all add: char_class_defs)

subsection \<open>Output paths\<close>

lemma split_on_no_sep: "sep \<notin> set s \<Longrightarrow> split_on sep s = [s]"
  by (induction s) auto

lemma names_Path_single:
  "CHR ''/'' \<notin> set seg \<Longrightarrow> seg \<noteq> [] \<Longrightarrow> seg \<noteq> ''.'' \<Longrightarrow> names (Path seg) = [seg]"
  by (simp add: Path_def split_on_no_sep keep_component_def)

lemma join_snoc: "xs \<noteq> [] \<Longrightarrow> join sep (xs @ [x]) = join sep xs @ sep @ x"
  by (induction sep xs rule: join.induct) auto

lemma out_name_single:
  assumes "CHR ''/'' \<notin> set st" and "CHR ''/'' \<notin> set ext"
  shows "names (Path (st @ ''-1.'' @ ext)) = [st @ ''-1.'' @ ext]"
proof (rule names_Path_single)
  show "CHR ''/'' \<notin> set (st @ ''-1.'' @ ext)" using assms by simp
  show "st @ ''-1.'' @ ext \<noteq> []" by simp
  show "st @ ''-1.'' @ ext \<noteq> ''.''"
    by (cases st) auto
qed

lemma out_name_relative: "take 1 (st @ ''-1.'' @ ext) \<noteq> ''/'' \<or> CHR ''/'' \<in> set st"
  by (cases st) auto

lemma names_get_out_path:
  assumes "CHR ''/'' \<notin> set (stem in_path)" and "CHR ''/'' \<notin> set (extension fc)"
  shows "get_out_path output_dir fc in_path
         = PosixPath (is_absolute output_dir) (names output_dir @ [stem in_path @ ''-1.'' @ extension fc])"
proof -
  define seg where "seg = stem in_path @ ''-1.'' @ extension fc"
  have "take 1 seg \<noteq> ''/''"
    using out_name_relative [of "stem in_path" "extension fc"] assms(1)
    unfolding seg_def by blast
  moreover have "names (Path seg) = [seg]"
    unfolding seg_def using assms by (rule out_name_single)
  ultimately have "joinpath output_dir seg = PosixPath (is_absolute output_dir) (names output_dir @ [seg])"
    by (simp add: joinpath_def)
  then show ?thesis
    by (simp add: get_out_path_def seg_def)
qed

text \<open>
  The stem of a path that was read from a string has no slash, so the first hypothesis
  of the two theorems below holds for it.
\<close>

lemma stem_of_no_slash: "CHR ''/'' \<notin> set n \<Longrightarrow> CHR ''/'' \<notin> set (stem_of n)"
  by (auto simp: stem_of_def split: option.splits dest: in_set_takeD)

lemma split_on_parts: "w \<in> set (split_on sep s) \<Longrightarrow> sep \<notin> set w"
  by (induction s arbitrary: w) (auto split: if_splits list.splits)

lemma name_Path_no_slash: "CHR ''/'' \<notin> set (name (Path s))"
proof (cases "names (Path s) = []")
  case True
  then show ?thesis by (simp add: name_def)
next
  case False
  then have "name (Path s) \<in> set (split_on CHR ''/'' s)"
    using last_in_set [of "names (Path s)"] by (auto simp: name_def Path_def)
  then show ?thesis
    by (rule split_on_parts)
qed

lemma stem_Path_no_slash: "CHR ''/'' \<notin> set (stem (Path s))"
  unfolding stem_def using name_Path_no_slash by (rule stem_of_no_slash)

text \<open>
  Claim C4. The output path is the output directory joined with the stem of the input
  file, \<^verbatim>\<open>-1\<close>, a dot and the extension: for a stem and an extension without a
  slash, its components are those of the directory and then that name, and as a string
  it is the directory, a slash and that name (the root directory apart, whose string is
  the slash itself).
\<close>

theorem get_out_path_str:
  assumes "CHR ''/'' \<notin> set (stem in_path)" and "CHR ''/'' \<notin> set (extension fc)"
  shows "get_out_path output_dir fc in_path
           = PosixPath (is_absolute output_dir)
               (names output_dir @ [stem in_path @ ''-1.'' @ extension fc])
     \<and> (names output_dir \<noteq> [] \<longrightarrow>
          str (get_out_path output_dir fc in_path)
            = str output_dir @ ''/'' @ stem in_path @ ''-1.'' @ extension fc)"
  by (simp add: names_get_out_path [OF assms] str_def join_snoc)

text \<open>The input \<^verbatim>\<open>song.mp3\<close> with extension \<^verbatim>\<open>wav\<close> and output directory \<^verbatim>\<open>/out\<close>.\<close>

theorem get_out_path_str_witness:
  "str (get_out_path (Path ''/out'') \<lparr>encoder = ''pcm_s16le'', extension = ''wav'', bitrate = None\<rparr>
         (Path ''/music/song.mp3'')) = ''/out/song-1.wav''"
  using get_out_path_str [where output_dir = "Path ''/out''"
      and in_path = "Path ''/music/song.mp3''"
      and fc = "\<lparr>encoder = ''pcm_s16le'', extension = ''wav'', bitrate = None\<rparr>"]
  by (simp add: Path_def stem_def stem_of_def name_def str_def keep_component_def)

lemma rfind_Some: "rfind c s = Some i \<Longrightarrow> i < length s \<and> s ! i = c"
  by (induction s arbitrary: i) (auto split: option.splits if_splits)

lemma stem_suffix: "stem_of n @ suffix_of n = n"
  by (simp add: stem_of_def suffix_of_def split: option.splits)

lemma suffix_of_dot: "suffix_of n = [] \<or> hd (suffix_of n) = CHR ''.''"
  by (auto simp: suffix_of_def hd_drop_conv_nth dest: rfind_Some split: option.splits)

lemma stem_of_suffixed_differs: "stem_of n @ ''-1.'' @ ext \<noteq> n"
proof
  assume "stem_of n @ ''-1.'' @ ext = n"
  then have "stem_of n @ ''-1.'' @ ext = stem_of n @ suffix_of n"
    by (simp add: stem_suffix)
  then have "suffix_of n = ''-1.'' @ ext"
    by simp
  then show False
    using suffix_of_dot [of n] by simp
qed

text \<open>
  Claim C6, as the code has it. \<^verbatim>\<open>get_out_path\<close> appends \<^verbatim>\<open>-1\<close> to the stem of
  every input file, whether or not the output would collide with the input, and for an
  extension without a slash the output path is never the input path.
\<close>

theorem get_out_path_not_input:
  assumes "CHR ''/'' \<notin> set (stem in_path)" and "CHR ''/'' \<notin> set (extension fc)"
  shows "get_out_path output_dir fc in_path \<noteq> in_path
         \<and> name (get_out_path output_dir fc in_path) = stem in_path @ ''-1.'' @ extension fc"
proof -
  have out: "get_out_path output_dir fc in_path
    = PosixPath (is_absolute output_dir) (names output_dir @ [stem in_path @ ''-1.'' @ extension fc])"
    using assms by (rule names_get_out_path)
  then have out_name: "name (get_out_path output_dir fc in_path) = stem in_path @ ''-1.'' @ extension fc"
    by (simp add: name_def)
  have "stem in_path @ ''-1.'' @ extension fc \<noteq> name in_path"
    unfolding stem_def by (rule stem_of_suffixed_differs)
  then have "name (get_out_path output_dir fc in_path) \<noteq> name in_path"
    by (simp only: out_name not_False_eq_True)
  then have "get_out_path output_dir fc in_path \<noteq> in_path"
    by (rule contrapos_nn) simp
  then show ?thesis
    using out_name by simp
qed

text \<open>An input in the output directory that already has the chosen extension.\<close>

theorem get_out_path_not_input_witness:
  "get_out_path (Path ''/music'') \<lparr>encoder = ''pcm_s16le'', extension = ''wav'', bitrate = None\<rparr>
     (Path ''/music/song.wav'') \<noteq> Path ''/music/song.wav''
   \<and> name (get_out_path (Path ''/music'')
       \<lparr>encoder = ''pcm_s16le'', extension = ''wav'', bitrate = None\<rparr> (Path ''/music/song.wav''))
     = ''song-1.wav''"
  using get_out_path_not_input [of "Path ''/music/song.wav''"
      "\<lparr>encoder = ''pcm_s16le'', extension = ''wav'', bitrate = None\<rparr>" "Path ''/music''"]
  by (simp add: Path_def stem_def stem_of_def name_def keep_component_def)

text \<open>
  Claim C6 as stated fails in its \<open>only when\<close>: for \<^verbatim>\<open>/music/song.mp3\<close>, extension
  \<^verbatim>\<open>wav\<close> and output directory \<^verbatim>\<open>/out\<close> the output is \<^verbatim>\<open>/out/song-1.wav\<close>,
  although \<^verbatim>\<open>/out/song.wav\<close> would not be the input path.
\<close>

theorem get_out_path_suffix_counterexample:
  "get_out_path (Path ''/out'') \<lparr>encoder = ''pcm_s16le'', extension = ''wav'', bitrate = None\<rparr>
     (Path ''/music/song.mp3'') = Path ''/out/song-1.wav''
   \<and> joinpath (Path ''/out'') (stem (Path ''/music/song.mp3'') @ ''.'' @ ''wav'')
       \<noteq> Path ''/music/song.mp3''"
  by (simp add: get_out_path_def Path_def joinpath_def stem_def stem_of_def name_def
      keep_component_def)

text \<open>
  The extension comes from the command line as it is. One that contains a slash adds
  components to the path, and then the output can be the input.
\<close>

lemma get_out_path_slash_extension:
  "get_out_path (Path ''/x'') \<lparr>encoder = ''pcm_s16le'', extension = ''a/b'', bitrate = None\<rparr>
     (Path ''/x/b-1.a/b'') = Path ''/x/b-1.a/b''"
  by (simp add: get_out_path_def Path_def joinpath_def stem_def stem_of_def name_def
      keep_component_def)

text \<open>
  The older entry point \<^verbatim>\<open>main.py\<close> does append \<^verbatim>\<open>-1\<close> only on a collision: without
  an explicit output path, the output of \<^verbatim>\<open>get_path\<close> before its last \<^verbatim>\<open>resolve\<close>
  is never the input, and its name ends in \<^verbatim>\<open>-1.wav\<close> exactly when the plain name
  \<^verbatim>\<open>stem.wav\<close> in the directory of the input would be the input itself.
\<close>

lemma joinpath_parent_single:
  assumes "CHR ''/'' \<notin> set seg" and "seg \<noteq> []" and "seg \<noteq> ''.''"
  shows "joinpath (parent p) seg = PosixPath (is_absolute p) (butlast (names p) @ [seg])"
proof -
  have "take 1 seg \<noteq> ''/''"
    using assms(1,2) by (cases seg) auto
  then show ?thesis
    using assms by (simp add: joinpath_def parent_def names_Path_single)
qed

lemma same_dir_eq:
  assumes "names p \<noteq> []"
  shows "PosixPath (is_absolute p) (butlast (names p) @ [seg]) = p \<longleftrightarrow> seg = name p"
proof -
  have "p = PosixPath (is_absolute p) (butlast (names p) @ [last (names p)])"
    using assms by simp
  then show ?thesis
    using assms by (metis append1_eq_conv name_def path.sel(2))
qed

lemma default_out_path_collision:
  assumes "names in_path \<noteq> []" and "CHR ''/'' \<notin> set (name in_path)"
  shows "default_out_path in_path \<noteq> in_path
     \<and> name (default_out_path in_path)
         = (if joinpath (parent in_path) (stem in_path @ ''.wav'') = in_path
            then stem in_path @ ''-1.wav'' else stem in_path @ ''.wav'')"
proof -
  let ?n = "name in_path"
  let ?plain = "joinpath (parent in_path) (stem in_path @ ''.wav'')"
  let ?suffixed = "joinpath (parent in_path) (stem in_path @ ''-1.wav'')"
  have ns: "CHR ''/'' \<notin> set (stem in_path)"
    unfolding stem_def using assms(2) by (rule stem_of_no_slash)
  have plain: "?plain
      = PosixPath (is_absolute in_path) (butlast (names in_path) @ [stem in_path @ ''.wav''])"
    using ns by (intro joinpath_parent_single) auto
  have suffixed: "?suffixed
      = PosixPath (is_absolute in_path) (butlast (names in_path) @ [stem in_path @ ''-1.wav''])"
    using ns by (intro joinpath_parent_single) auto
  have plain_eq: "?plain = in_path \<longleftrightarrow> stem in_path @ ''.wav'' = ?n"
    unfolding plain by (rule same_dir_eq [OF assms(1)])
  have suffixed_eq: "?suffixed = in_path \<longleftrightarrow> stem in_path @ ''-1.wav'' = ?n"
    unfolding suffixed by (rule same_dir_eq [OF assms(1)])
  have "stem_of ?n @ ''.wav'' = stem_of ?n @ suffix_of ?n \<longleftrightarrow> ''.wav'' = suffix_of ?n"
    by (rule same_append_eq)
  then have wav: "stem in_path @ ''.wav'' = ?n \<longleftrightarrow> suffix in_path = ''.wav''"
    unfolding stem_suffix stem_def suffix_def by (rule trans) (rule eq_commute)
  have differs: "stem in_path @ ''-1.wav'' \<noteq> ?n"
    using stem_of_suffixed_differs [of ?n "''wav''"] by (simp add: stem_def)
  have name_plain: "name ?plain = stem in_path @ ''.wav''"
    unfolding plain by (simp add: name_def)
  have name_suffixed: "name ?suffixed = stem in_path @ ''-1.wav''"
    unfolding suffixed by (simp add: name_def)
  show ?thesis
  proof (cases "suffix in_path = ''.wav''")
    case True
    then have out: "default_out_path in_path = ?suffixed"
      by (simp add: default_out_path_def)
    have "?plain = in_path"
      using True plain_eq wav by blast
    moreover have "?suffixed \<noteq> in_path"
      using differs suffixed_eq by blast
    ultimately show ?thesis
      unfolding out by (simp only: name_suffixed if_True not_False_eq_True simp_thms)
  next
    case False
    then have out: "default_out_path in_path = ?plain"
      by (simp add: default_out_path_def)
    have "?plain \<noteq> in_path"
      using False plain_eq wav by blast
    then show ?thesis
      unfolding out by (simp only: name_plain if_False not_False_eq_True simp_thms)
  qed
qed

subsection \<open>Removing duplicate files\<close>

lemma dict_keys_snoc:
  "dict_keys (xs @ [x]) = dict_store (dict_keys xs) x"
  by (simp add: dict_keys_def)

lemma set_dict_keys: "set (dict_keys xs) = set xs"
  by (induction xs rule: rev_induct) (auto simp: dict_keys_snoc dict_store_def dict_keys_def)

lemma distinct_dict_keys: "distinct (dict_keys xs)"
  by (induction xs rule: rev_induct) (auto simp: dict_keys_snoc dict_store_def dict_keys_def)

lemma first_index_less: "x \<in> set xs \<Longrightarrow> first_index xs x < length xs"
  unfolding first_index_def
  by (induction xs) auto

lemma first_index_append: "x \<in> set xs \<Longrightarrow> first_index (xs @ ys) x = first_index xs x"
  by (simp add: first_index_def)

lemma first_index_snoc_new: "x \<notin> set xs \<Longrightarrow> first_index (xs @ [x]) x = length xs"
  unfolding first_index_def by (induction xs) auto

lemma map_first_index_append:
  "set ks \<subseteq> set xs \<Longrightarrow> map (first_index (xs @ ys)) ks = map (first_index xs) ks"
  by (induction ks) (auto simp: first_index_append)

lemma dict_keys_order: "sorted_wrt (<) (map (first_index xs) (dict_keys xs))"
proof (induction xs rule: rev_induct)
  case Nil
  show ?case by (simp add: dict_keys_def)
next
  case (snoc x xs)
  have same: "map (first_index (xs @ [x])) (dict_keys xs) = map (first_index xs) (dict_keys xs)"
    by (rule map_first_index_append) (simp add: set_dict_keys)
  show ?case
  proof (cases "x \<in> set xs")
    case True
    then have "dict_keys (xs @ [x]) = dict_keys xs"
      by (simp add: dict_keys_snoc dict_store_def set_dict_keys)
    then show ?thesis
      using snoc by (simp only: same)
  next
    case False
    then have keys: "dict_keys (xs @ [x]) = dict_keys xs @ [x]"
      by (simp add: dict_keys_snoc dict_store_def set_dict_keys)
    have "\<forall>i \<in> set (map (first_index xs) (dict_keys xs)). i < length xs"
      by (auto simp: set_dict_keys first_index_less)
    then show ?thesis
      using snoc False
      by (simp only: keys map_append same sorted_wrt_append)
        (simp add: first_index_snoc_new)
  qed
qed

text \<open>
  Claim C5. For every list of resolved input paths, the list without duplicates holds
  each path of the input exactly once (it is distinct and has the same elements), and
  its paths stand in the order of their first occurrences in the input: their first
  indices there increase strictly.
\<close>

theorem remove_duplicates_first_occurrences:
  "distinct (remove_duplicates input_files)
   \<and> set (remove_duplicates input_files) = set input_files
   \<and> sorted_wrt (<) (map (first_index input_files) (remove_duplicates input_files))"
  by (simp add: remove_duplicates_def distinct_dict_keys set_dict_keys dict_keys_order)

subsection \<open>Calling FFmpeg\<close>

text \<open>
  Claim C9. \<^verbatim>\<open>call_ffmpeg\<close> fails with the message that FFmpeg is not installed when
  the binary is not found, with the message that FFmpeg failed to start when starting
  it fails otherwise, and with the message that FFmpeg exited abnormally when its
  return code is not 0; the first and the last error differ. When the return code is 0
  it returns the captured text. (The specification's \<open>ToolMissingError\<close>,
  \<open>ToolLaunchError\<close> and \<open>ToolExecutionError\<close> are \<^verbatim>\<open>FfmpegNmlzError\<close> with these
  three messages.)
\<close>

theorem call_ffmpeg_errors:
  "(Popen os (world s) params = (Popen_FileNotFoundError, w') \<longrightarrow>
      fst (call_ffmpeg os params s) = Inl (FfmpegNmlzError ''FFmpeg is not installed. Please install FFmpeg first.''))
   \<and> (Popen os (world s) params = (Popen_OtherError, w') \<longrightarrow>
      fst (call_ffmpeg os params s) = Inl (FfmpegNmlzError ''Failed to start FFmpeg. Please check your FFmpeg installation.''))
   \<and> (Popen os (world s) params = (Popen_Exited returncode out, w') \<and> returncode \<noteq> 0 \<longrightarrow>
      fst (call_ffmpeg os params s) = Inl (FfmpegNmlzError ''FFmpeg exited abnormally.''))
   \<and> (Popen os (world s) params = (Popen_Exited 0 out, w') \<longrightarrow>
      fst (call_ffmpeg os params s) = Inr out)
   \<and> FfmpegNmlzError ''FFmpeg is not installed. Please install FFmpeg first.''
       \<noteq> FfmpegNmlzError ''FFmpeg exited abnormally.''"
  by (simp add: call_ffmpeg_def)

text \<open>The four cases, each on a machine that shows it.\<close>

theorem call_ffmpeg_errors_witness:
  "fst (call_ffmpeg (example_system ffmpeg_missing) [''ffmpeg''] initial_state)
     = Inl (FfmpegNmlzError ''FFmpeg is not installed. Please install FFmpeg first.'')
   \<and> fst (call_ffmpeg (example_system ffmpeg_unstartable) [''ffmpeg''] initial_state)
     = Inl (FfmpegNmlzError ''Failed to start FFmpeg. Please check your FFmpeg installation.'')
   \<and> fst (call_ffmpeg (example_system (ffmpeg_fails_on ''a.wav'')) [''ffmpeg'', ''a.wav''] initial_state)
     = Inl (FfmpegNmlzError ''FFmpeg exited abnormally.'')
   \<and> fst (call_ffmpeg (example_system ffmpeg_works) [''ffmpeg''] initial_state)
     = Inr (''  max_volume: -3.2 dB'' @ [newline])"
  using
    call_ffmpeg_errors [of "example_system ffmpeg_missing" initial_state "[''ffmpeg'']" "()"]
    call_ffmpeg_errors [of "example_system ffmpeg_unstartable" initial_state "[''ffmpeg'']" "()"]
    call_ffmpeg_errors [of "example_system (ffmpeg_fails_on ''a.wav'')" initial_state
      "[''ffmpeg'', ''a.wav'']" "()" 1 "[]"]
    call_ffmpeg_errors [of "example_system ffmpeg_works" initial_state "[''ffmpeg'']" "()" 1
      "''  max_volume: -3.2 dB'' @ [newline]"]
  by (simp add: example_system_def ffmpeg_missing_def ffmpeg_unstartable_def ffmpeg_fails_on_def
      ffmpeg_works_def initial_state_def)

subsection \<open>Preparing the arguments\<close>

lemma preset_step_patterns:
  "snd (preset_step (fc, ps) x) = (if is_preset x then ps else ps @ [x])"
  by (auto simp: preset_step_def is_preset_def split: option.splits prod.splits)

lemma preset_step_not_preset:
  "\<not> is_preset x \<Longrightarrow> preset_step (fc, ps) x = (fc, ps @ [x])"
  by (auto simp: preset_step_def is_preset_def split: option.splits prod.splits)

lemma foldl_preset_step_patterns:
  "snd (foldl preset_step (fc, ps) xs) = ps @ filter (\<lambda>t. \<not> is_preset t) xs"
proof (induction xs arbitrary: fc ps)
  case Nil
  show ?case by simp
next
  case (Cons x xs)
  obtain fc' ps' where step: "preset_step (fc, ps) x = (fc', ps')"
    by (cases "preset_step (fc, ps) x")
  then have "ps' = (if is_preset x then ps else ps @ [x])"
    using preset_step_patterns [of fc ps x] by simp
  then show ?case
    by (simp add: step Cons.IH)
qed

lemma find_presets_patterns:
  "snd (find_presets inputs) = filter (\<lambda>t. \<not> is_preset t) inputs"
  by (simp add: find_presets_def foldl_preset_step_patterns)

lemma foldl_preset_step_none:
  "list_all (\<lambda>t. \<not> is_preset t) xs \<Longrightarrow> foldl preset_step (fc, ps) xs = (fc, ps @ xs)"
  by (induction xs arbitrary: ps) (simp_all add: preset_step_not_preset)

lemma RE_PRESET_fullmatch_chars:
  assumes "RE_PRESET_fullmatch s = Some g" and "c \<in> set s"
  shows "is_letter c \<or> is_digit c"
proof -
  have "set s = set (takeWhile is_letter s) \<union> set (dropWhile is_letter s)"
    by (metis set_append takeWhile_dropWhile_id)
  moreover have "c \<in> set (takeWhile is_letter s) \<Longrightarrow> is_letter c"
    by (rule set_takeWhileD [THEN conjunct2])
  moreover have "list_all is_digit (dropWhile is_letter s)"
  proof (cases "dropWhile is_letter s = []")
    case True
    show ?thesis unfolding True by simp
  next
    case False
    then show ?thesis
      using assms(1) by (simp add: RE_PRESET_fullmatch_def split: if_splits)
  qed
  ultimately show ?thesis
    using assms(2) by (auto simp: list_all_iff)
qed

lemma wildcard_not_preset: "has_wildcard pattern \<Longrightarrow> \<not> is_preset pattern"
proof
  assume w: "has_wildcard pattern" and "is_preset pattern"
  then obtain g where "RE_PRESET_fullmatch pattern = Some g"
    by (auto simp: is_preset_def split: option.splits)
  then have "\<And>c. c \<in> set pattern \<Longrightarrow> is_letter c \<or> is_digit c"
    by (rule RE_PRESET_fullmatch_chars)
  then have "CHR ''*'' \<notin> set pattern" and "CHR ''?'' \<notin> set pattern"
    by (auto simp: char_class_defs)
  with w show False
    by (simp add: has_wildcard_def)
qed

lemma find_input_files_append:
  "find_input_files os w (ps1 @ ps2) acc =
     (case find_input_files os w ps1 acc of
        Inl e \<Rightarrow> Inl e
      | Inr acc' \<Rightarrow> find_input_files os w ps2 acc')"
  by (induction ps1 arbitrary: acc) (auto split: sum.splits)

lemma find_input_files_empty_glob:
  "has_wildcard pattern \<Longrightarrow> glob os w pattern = Inr [] \<Longrightarrow>
   find_input_files os w (pattern # rest) acc
     = Inl (FfmpegNmlzError (''No files found for pattern: '' @ pattern))"
  by simp

text \<open>
  Claim C8, as the code has it. When an input token contains \<^verbatim>\<open>*\<close> or \<^verbatim>\<open>?\<close> and expands to no file
  (in the world the preparation of the output directory leaves, which is the world the
  function returns), argument preparation fails and returns no files. The error is the
  one that names this pattern whenever the preparation gets as far as the pattern, that
  is, whenever it succeeds on the tokens before it.
\<close>

theorem empty_glob_fails:
  assumes inputs: "args_inputs a = earlier @ pattern # later"
    and wildcard: "has_wildcard pattern"
    and empty: "glob os (snd (verify_and_prepare_args os a w)) pattern = Inr []"
  shows "(\<exists>e. fst (verify_and_prepare_args os a w) = Inl e)
     \<and> (\<forall>r. fst (verify_and_prepare_args os (a\<lparr>args_inputs := earlier\<rparr>) w) = Inr r \<longrightarrow>
          fst (verify_and_prepare_args os a w)
            = Inl (FfmpegNmlzError (''No files found for pattern: '' @ pattern)))"
proof (cases "prepare_output_dir os w (args_output_dir a)")
  case (Pair r w1)
  show ?thesis
  proof (cases r)
    case (Inl e)
    then show ?thesis
      using Pair by (simp add: verify_and_prepare_args_def)
  next
    case (Inr output_dir)
    let ?P1 = "filter (\<lambda>t. \<not> is_preset t) earlier"
    let ?P2 = "filter (\<lambda>t. \<not> is_preset t) later"
    have world: "snd (verify_and_prepare_args os a w) = w1"
      using Pair Inr by (simp add: verify_and_prepare_args_def split: prod.splits sum.splits)
    have pats: "snd (find_presets (args_inputs a)) = ?P1 @ pattern # ?P2"
      using wildcard_not_preset [OF wildcard] by (simp add: find_presets_patterns inputs)
    have here: "\<And>acc. find_input_files os w1 (pattern # ?P2) acc
        = Inl (FfmpegNmlzError (''No files found for pattern: '' @ pattern))"
      using wildcard empty unfolding world by (rule find_input_files_empty_glob)
    have all: "find_input_files os w1 (snd (find_presets (args_inputs a))) [] =
        (case find_input_files os w1 ?P1 [] of
           Inl e \<Rightarrow> Inl e
         | Inr acc \<Rightarrow> Inl (FfmpegNmlzError (''No files found for pattern: '' @ pattern)))"
      unfolding pats find_input_files_append here by (rule refl)
    have full: "fst (verify_and_prepare_args os a w) =
        (case find_input_files os w1 ?P1 [] of
           Inl e \<Rightarrow> Inl e
         | Inr acc \<Rightarrow> Inl (FfmpegNmlzError (''No files found for pattern: '' @ pattern)))"
      using Pair Inr all
      by (cases "find_presets (args_inputs a)")
        (simp add: verify_and_prepare_args_def split: sum.splits)
    have before: "\<And>r. fst (verify_and_prepare_args os (a\<lparr>args_inputs := earlier\<rparr>) w) = Inr r
        \<Longrightarrow> \<exists>acc. find_input_files os w1 ?P1 [] = Inr acc"
      using Pair Inr find_presets_patterns [of earlier]
      by (cases "find_presets earlier")
        (auto simp: verify_and_prepare_args_def split: sum.splits)
    show ?thesis
      using before by (auto simp: full split: sum.splits)
  qed
qed

text \<open>A file that exists, followed by a pattern that expands to nothing.\<close>

lemma example_prepare_a:
  "verify_and_prepare_args (example_system ffmpeg_works) (example_args [''a.wav'']) ()
     = (Inr (PosixPath True [''out''],
             \<lparr>encoder = ''pcm_s16le'', extension = ''wav'', bitrate = None\<rparr>,
             [PosixPath True [''music'', ''a.wav'']]), ())"
  by (simp add: verify_and_prepare_args_def prepare_output_dir_def example_system_def
      example_args_def find_presets_def preset_step_def RE_PRESET_fullmatch_def char_class_defs
      PRESET_INFO_def has_wildcard_def verify_and_canonicanize_path_def Path_def
      keep_component_def name_def remove_duplicates_def dict_keys_def dict_store_def)

theorem empty_glob_fails_witness:
  "fst (verify_and_prepare_args (example_system ffmpeg_works)
         (example_args [''a.wav'', ''*.flac'']) ())
     = Inl (FfmpegNmlzError ''No files found for pattern: *.flac'')"
proof -
  have "args_inputs (example_args [''a.wav'', ''*.flac'']) = [''a.wav''] @ ''*.flac'' # []"
    by (simp add: example_args_def)
  moreover have "has_wildcard ''*.flac''"
    by (simp add: has_wildcard_def)
  moreover have "glob (example_system ffmpeg_works)
      (snd (verify_and_prepare_args (example_system ffmpeg_works)
             (example_args [''a.wav'', ''*.flac'']) ())) ''*.flac'' = Inr []"
    by (simp add: example_system_def)
  moreover have "(example_args [''a.wav'', ''*.flac''])\<lparr>args_inputs := [''a.wav'']\<rparr>
      = example_args [''a.wav'']"
    by (simp add: example_args_def)
  ultimately show ?thesis
    using empty_glob_fails [of "example_args [''a.wav'', ''*.flac'']" "[''a.wav'']" "''*.flac''" "[]"
        "example_system ffmpeg_works" "()"]
    by (simp add: example_prepare_a)
qed

text \<open>
  Claim C8 as stated fails for a pattern that is not reached. Of two patterns that
  expand to nothing the error names the first, not the second; and after a file that
  cannot be opened the error is about that file.
\<close>

theorem empty_glob_later_pattern_counterexample:
  "has_wildcard ''*.flac''
   \<and> glob (example_system ffmpeg_works) () ''*.flac'' = Inr []
   \<and> fst (verify_and_prepare_args (example_system ffmpeg_works)
            (example_args [''*.ogg'', ''*.flac'']) ())
       = Inl (FfmpegNmlzError ''No files found for pattern: *.ogg'')
   \<and> fst (verify_and_prepare_args (example_system ffmpeg_works)
            (example_args [''*.ogg'', ''*.flac'']) ())
       \<noteq> Inl (FfmpegNmlzError ''No files found for pattern: *.flac'')
   \<and> fst (verify_and_prepare_args (example_system ffmpeg_works)
            (example_args [''missing.wav'', ''*.flac'']) ())
       = Inl (FfmpegNmlzError ''Failed to open file: missing.wav'')"
  by (simp add: example_run_defs)

text \<open>
  Claim C10. When no input token is taken for a preset, the loop over the tokens leaves
  the format at the \<^verbatim>\<open>wav\<close> preset (encoder \<^verbatim>\<open>pcm_s16le\<close>, extension \<^verbatim>\<open>wav\<close>, no
  bitrate) and keeps every token as a pattern; the configuration returned is this one
  with the extension replaced by the extension flag when there is one.
\<close>

theorem default_format_is_wav:
  assumes "list_all (\<lambda>t. \<not> is_preset t) (args_inputs a)"
  shows "find_presets (args_inputs a)
           = (\<lparr>encoder = ''pcm_s16le'', extension = ''wav'', bitrate = None\<rparr>, args_inputs a)
     \<and> (\<forall>output_dir fc input_files w1.
          verify_and_prepare_args os a w = (Inr (output_dir, fc, input_files), w1) \<longrightarrow>
          fc = \<lparr>encoder = ''pcm_s16le'',
                extension = (case args_extension a of None \<Rightarrow> ''wav'' | Some e \<Rightarrow> e),
                bitrate = None\<rparr>)"
proof -
  have wav: "the (map_of PRESET_INFO ''wav'')
      = \<lparr>encoder = ''pcm_s16le'', extension = ''wav'', bitrate = None\<rparr>"
    by (simp add: PRESET_INFO_def)
  have presets: "find_presets (args_inputs a)
      = (\<lparr>encoder = ''pcm_s16le'', extension = ''wav'', bitrate = None\<rparr>, args_inputs a)"
    using assms by (simp add: find_presets_def foldl_preset_step_none wav)
  show ?thesis
    by (auto simp: presets verify_and_prepare_args_def split: prod.splits sum.splits option.splits)
qed

text \<open>One file and no preset.\<close>

theorem default_format_is_wav_witness:
  "find_presets [''a.wav'']
     = (\<lparr>encoder = ''pcm_s16le'', extension = ''wav'', bitrate = None\<rparr>, [''a.wav''])
   \<and> fst (verify_and_prepare_args (example_system ffmpeg_works) (example_args [''a.wav'']) ())
     = Inr (PosixPath True [''out''],
            \<lparr>encoder = ''pcm_s16le'', extension = ''wav'', bitrate = None\<rparr>,
            [PosixPath True [''music'', ''a.wav'']])"
proof -
  have "list_all (\<lambda>t. \<not> is_preset t) (args_inputs (example_args [''a.wav'']))"
    by (simp add: example_args_def is_preset_def RE_PRESET_fullmatch_def char_class_defs)
  from default_format_is_wav [OF this, of "example_system ffmpeg_works" "()"]
  show ?thesis
    by (simp add: example_args_def example_prepare_a [unfolded example_args_def])
qed

subsection \<open>The run\<close>

lemma commands_call_ffmpeg:
  "commands (snd (call_ffmpeg os params s)) = commands s @ [params]"
  by (simp add: call_ffmpeg_def split: prod.splits)

lemma commands_print: "commands (print line s) = commands s"
  by (simp add: print_def)

lemma commands_ffmpeg_get_max_volume:
  "commands (snd (ffmpeg_get_max_volume os in_path s)) = commands s @ [detect_command in_path]"
proof (cases "call_ffmpeg os (detect_command in_path) s")
  case (Pair r s1)
  then have "commands s1 = commands s @ [detect_command in_path]"
    using commands_call_ffmpeg [of os "detect_command in_path" s] by simp
  then show ?thesis
    using Pair by (cases r) (simp_all add: ffmpeg_get_max_volume_def)
qed

lemma commands_ffmpeg_convert:
  "commands (snd (ffmpeg_convert_with_volume_filter os in_path out_path volume fc s))
     = commands s @ [encode_command os in_path out_path volume fc]"
proof (cases "call_ffmpeg os (encode_command os in_path out_path volume fc) s")
  case (Pair r s1)
  then have "commands s1 = commands s @ [encode_command os in_path out_path volume fc]"
    using commands_call_ffmpeg [of os "encode_command os in_path out_path volume fc" s] by simp
  then show ?thesis
    using Pair by (cases r) (simp_all add: ffmpeg_convert_with_volume_filter_def)
qed

lemma commands_normalize_file:
  assumes "normalize_file os output_dir fc i in_path s = (Inr u, s')"
  shows "\<exists>v. commands s' = commands s @
            [detect_command (str in_path),
             encode_command os (str in_path) (str (get_out_path output_dir fc in_path)) v fc]"
proof -
  let ?s0 = "print (''> File '' @ str_nat (i + 1) @ '': '' @ name in_path) s"
  obtain r s1 where detect: "ffmpeg_get_max_volume os (str in_path) ?s0 = (r, s1)"
    by (cases "ffmpeg_get_max_volume os (str in_path) ?s0")
  have c1: "commands s1 = commands s @ [detect_command (str in_path)]"
    using commands_ffmpeg_get_max_volume [of os "str in_path" ?s0]
    unfolding detect by (simp add: commands_print)
  show ?thesis
  proof (cases r)
    case (Inl e)
    then show ?thesis
      using assms detect by (simp add: normalize_file_def)
  next
    case (Inr v)
    let ?s2 = "print (''    Encoding...'' @ [newline]) (print (''    Max volume: '' @ float_repr os v @ '' dB'') s1)"
    have "normalize_file os output_dir fc i in_path s
      = ffmpeg_convert_with_volume_filter os (str in_path) (str (get_out_path output_dir fc in_path))
         (target_volume v) fc ?s2"
      using detect Inr by (simp add: normalize_file_encodes)
    then have "s' = snd (ffmpeg_convert_with_volume_filter os (str in_path)
         (str (get_out_path output_dir fc in_path)) (target_volume v) fc ?s2)"
      using assms by (metis snd_conv)
    then have "commands s' = commands s @
            [detect_command (str in_path),
             encode_command os (str in_path) (str (get_out_path output_dir fc in_path)) (target_volume v) fc]"
      by (simp add: commands_ffmpeg_convert commands_print c1)
    then show ?thesis ..
  qed
qed

lemma process_files_append:
  "process_files os output_dir fc i (xs @ ys) s =
     (case process_files os output_dir fc i xs s of
        (Inl e, s') \<Rightarrow> (Inl e, s')
      | (Inr u, s') \<Rightarrow> process_files os output_dir fc (i + length xs) ys s')"
  by (induction xs arbitrary: i s) (auto split: prod.splits sum.splits)

lemma process_files_stops:
  assumes "fst (process_files os output_dir fc i (finished @ [in_path]) s) = Inl e"
  shows "process_files os output_dir fc i (finished @ in_path # remaining) s
         = process_files os output_dir fc i (finished @ [in_path]) s"
proof -
  have "process_files os output_dir fc i ((finished @ [in_path]) @ remaining) s
         = process_files os output_dir fc i (finished @ [in_path]) s"
    using assms
    by (subst process_files_append) (auto split: prod.splits sum.splits)
  then show ?thesis by simp
qed

lemma commands_process_files:
  "process_files os output_dir fc i input_paths s = (Inr u, s') \<Longrightarrow>
   \<exists>vs. length vs = length input_paths \<and>
     commands s' = commands s @ concat (map2 (file_commands os output_dir fc) input_paths vs)"
proof (induction input_paths arbitrary: i s)
  case Nil
  then show ?case by simp
next
  case (Cons p ps)
  obtain r s1 where one: "normalize_file os output_dir fc i p s = (r, s1)"
    by (cases "normalize_file os output_dir fc i p s")
  with Cons.prems obtain u1 where r: "r = Inr u1"
    and rest: "process_files os output_dir fc (Suc i) ps s1 = (Inr u, s')"
    by (cases r) auto
  from one r obtain v where c1: "commands s1 = commands s @ file_commands os output_dir fc p v"
    unfolding file_commands_def using commands_normalize_file by blast
  from Cons.IH [OF rest] obtain vs where vs: "length vs = length ps"
    and c2: "commands s' = commands s1 @ concat (map2 (file_commands os output_dir fc) ps vs)"
    by blast
  have "length (v # vs) = length (p # ps)"
    using vs by simp
  moreover have "commands s' = commands s @ concat (map2 (file_commands os output_dir fc) (p # ps) (v # vs))"
    by (simp add: c1 c2)
  ultimately show ?case by blast
qed

text \<open>
  Claim C7, as the code has it. When \<^verbatim>\<open>do_normalizing\<close> fails with a
  \<^verbatim>\<open>FfmpegNmlzError\<close>, \<^verbatim>\<open>main\<close> prints an empty line and \<^verbatim>\<open>ERROR: <message>\<close> to
  standard error and returns, so that the process ends with exit status 0. A failure
  at one file ends the loop: the files after it change nothing. When nothing fails,
  \<^verbatim>\<open>main\<close> returns too, with exit status 0, after the two commands of every input
  file have run, in the order of the files.
\<close>

theorem main_stops_at_first_failure:
  "(do_normalizing os a s = (Inl (FfmpegNmlzError msg), s') \<longrightarrow>
      main os a s = (Inr (), s'\<lparr>sys_stderr := sys_stderr s' @ [newline # ''ERROR: '' @ msg]\<rparr>)
      \<and> exit_status (fst (main os a s)) = 0)
   \<and> (fst (process_files os output_dir fc i (finished @ [in_path]) s) = Inl e \<longrightarrow>
      process_files os output_dir fc i (finished @ in_path # remaining) s
        = process_files os output_dir fc i (finished @ [in_path]) s)
   \<and> (do_normalizing os a s = (Inr (), s') \<longrightarrow>
      main os a s = (Inr (), s') \<and> exit_status (fst (main os a s)) = 0
      \<and> (\<exists>dir cfg input_paths w1 vs.
            verify_and_prepare_args os a (world s) = (Inr (dir, cfg, input_paths), w1)
            \<and> length vs = length input_paths
            \<and> commands s' = commands s @ concat (map2 (file_commands os dir cfg) input_paths vs)))"
proof (intro conjI impI)
  assume "do_normalizing os a s = (Inl (FfmpegNmlzError msg), s')"
  then show "main os a s = (Inr (), s'\<lparr>sys_stderr := sys_stderr s' @ [newline # ''ERROR: '' @ msg]\<rparr>)"
    by (simp add: main_def)
  then show "exit_status (fst (main os a s)) = 0"
    by (simp add: exit_status_def)
next
  assume "fst (process_files os output_dir fc i (finished @ [in_path]) s) = Inl e"
  then show "process_files os output_dir fc i (finished @ in_path # remaining) s
        = process_files os output_dir fc i (finished @ [in_path]) s"
    by (rule process_files_stops)
next
  assume ok: "do_normalizing os a s = (Inr (), s')"
  then show m: "main os a s = (Inr (), s')"
    by (simp add: main_def)
  then show "exit_status (fst (main os a s)) = 0"
    by (simp add: exit_status_def)
  obtain r w1 where prep: "verify_and_prepare_args os a (world s) = (r, w1)"
    by (cases "verify_and_prepare_args os a (world s)")
  with ok obtain dir cfg input_paths where r: "r = Inr (dir, cfg, input_paths)"
    and run: "process_files os dir cfg 0 input_paths (s\<lparr>world := w1\<rparr>) = (Inr (), s')"
    by (cases r) (auto simp: do_normalizing_def)
  from commands_process_files [OF run] obtain vs where "length vs = length input_paths"
    and "commands s' = commands s @ concat (map2 (file_commands os dir cfg) input_paths vs)"
    by auto
  then show "\<exists>dir cfg input_paths w1 vs.
            verify_and_prepare_args os a (world s) = (Inr (dir, cfg, input_paths), w1)
            \<and> length vs = length input_paths
            \<and> commands s' = commands s @ concat (map2 (file_commands os dir cfg) input_paths vs)"
    using prep r by blast
qed

text \<open>
  Three runs in the example environment, on the pattern \<^verbatim>\<open>*.wav\<close> and the file
  \<^verbatim>\<open>c.wav\<close>: one in which FFmpeg fails on the second file, one in which it never
  fails, and one on a machine without FFmpeg.
\<close>

lemma example_run_fails:
  "do_normalizing (example_system (ffmpeg_fails_on ''/music/b.wav''))
     (example_args [''*.wav'', ''c.wav'']) initial_state
   = (Inl (FfmpegNmlzError ''FFmpeg exited abnormally.''),
      \<lparr>world = (),
       sys_stdout = [''> File 1: a.wav'', ''    Max volume: -3.2 dB'',
                     ''    Encoding...'' @ [newline], ''> File 2: b.wav''],
       sys_stderr = [],
       commands = file_commands (example_system (ffmpeg_fails_on ''/music/b.wav''))
                    (PosixPath True [''out'']) wav_config (PosixPath True [''music'', ''a.wav''])
                    (32 / 10)
                  @ [detect_command ''/music/b.wav'']\<rparr>)"
  by (simp add: example_run_defs)

lemma example_run_works:
  "do_normalizing (example_system ffmpeg_works)
     (example_args [''*.wav'', ''c.wav'']) initial_state
   = (Inr (),
      \<lparr>world = (),
       sys_stdout =
         [''> File 1: a.wav'', ''    Max volume: -3.2 dB'', ''    Encoding...'' @ [newline],
          ''> File 2: b.wav'', ''    Max volume: -3.2 dB'', ''    Encoding...'' @ [newline],
          ''> File 3: c.wav'', ''    Max volume: -3.2 dB'', ''    Encoding...'' @ [newline]],
       sys_stderr = [],
       commands = concat (map (\<lambda>f. file_commands (example_system ffmpeg_works)
                    (PosixPath True [''out'']) wav_config (PosixPath True [''music'', f]) (32 / 10))
                    [''a.wav'', ''b.wav'', ''c.wav''])\<rparr>)"
  by (simp add: example_run_defs)

lemma example_run_missing:
  "main (example_system ffmpeg_missing) (example_args [''a.wav'']) initial_state
   = (Inr (),
      \<lparr>world = (),
       sys_stdout = [''> File 1: a.wav''],
       sys_stderr = [newline # ''ERROR: FFmpeg is not installed. Please install FFmpeg first.''],
       commands = [detect_command ''/music/a.wav'']\<rparr>)"
  by (simp add: main_def example_run_defs)

lemma example_files_fail:
  "fst (process_files (example_system (ffmpeg_fails_on ''/music/b.wav'')) (PosixPath True [''out''])
     wav_config 0 ([PosixPath True [''music'', ''a.wav'']] @ [PosixPath True [''music'', ''b.wav'']])
     initial_state)
   = Inl (FfmpegNmlzError ''FFmpeg exited abnormally.'')"
  by (simp add: example_run_defs)

text \<open>
  The theorem on the first two runs. In the first, the error is printed, \<^verbatim>\<open>main\<close>
  returns, and the third file changes nothing; in the second, \<^verbatim>\<open>main\<close> returns with
  nothing on standard error.
\<close>

theorem main_stops_at_first_failure_witness:
  "main (example_system (ffmpeg_fails_on ''/music/b.wav'')) (example_args [''*.wav'', ''c.wav''])
     initial_state
   = (Inr (),
      \<lparr>world = (),
       sys_stdout = [''> File 1: a.wav'', ''    Max volume: -3.2 dB'',
                     ''    Encoding...'' @ [newline], ''> File 2: b.wav''],
       sys_stderr = [newline # ''ERROR: FFmpeg exited abnormally.''],
       commands = file_commands (example_system (ffmpeg_fails_on ''/music/b.wav''))
                    (PosixPath True [''out'']) wav_config (PosixPath True [''music'', ''a.wav''])
                    (32 / 10)
                  @ [detect_command ''/music/b.wav'']\<rparr>)
   \<and> process_files (example_system (ffmpeg_fails_on ''/music/b.wav'')) (PosixPath True [''out''])
       wav_config 0
       [PosixPath True [''music'', ''a.wav''], PosixPath True [''music'', ''b.wav''],
        PosixPath True [''music'', ''c.wav'']] initial_state
     = process_files (example_system (ffmpeg_fails_on ''/music/b.wav'')) (PosixPath True [''out''])
       wav_config 0
       [PosixPath True [''music'', ''a.wav''], PosixPath True [''music'', ''b.wav'']] initial_state
   \<and> fst (main (example_system ffmpeg_works) (example_args [''*.wav'', ''c.wav'']) initial_state)
     = Inr ()
   \<and> sys_stderr (snd (main (example_system ffmpeg_works) (example_args [''*.wav'', ''c.wav''])
       initial_state)) = []"
proof -
  note failing = main_stops_at_first_failure
    [where os = "example_system (ffmpeg_fails_on ''/music/b.wav'')"
       and a = "example_args [''*.wav'', ''c.wav'']" and s = initial_state
       and msg = "''FFmpeg exited abnormally.''"
       and output_dir = "PosixPath True [''out'']" and fc = wav_config and i = 0
       and finished = "[PosixPath True [''music'', ''a.wav'']]"
       and in_path = "PosixPath True [''music'', ''b.wav'']"
       and remaining = "[PosixPath True [''music'', ''c.wav'']]"
       and e = "FfmpegNmlzError ''FFmpeg exited abnormally.''"]
  note working = main_stops_at_first_failure
    [where os = "example_system ffmpeg_works"
       and a = "example_args [''*.wav'', ''c.wav'']" and s = initial_state]
  have printed: "main (example_system (ffmpeg_fails_on ''/music/b.wav''))
      (example_args [''*.wav'', ''c.wav'']) initial_state
    = (Inr (),
      \<lparr>world = (),
       sys_stdout = [''> File 1: a.wav'', ''    Max volume: -3.2 dB'',
                     ''    Encoding...'' @ [newline], ''> File 2: b.wav''],
       sys_stderr = [newline # ''ERROR: FFmpeg exited abnormally.''],
       commands = file_commands (example_system (ffmpeg_fails_on ''/music/b.wav''))
                    (PosixPath True [''out'']) wav_config (PosixPath True [''music'', ''a.wav''])
                    (32 / 10)
                  @ [detect_command ''/music/b.wav'']\<rparr>)"
    using failing [THEN conjunct1, rule_format, OF example_run_fails] by simp
  have stopped: "process_files (example_system (ffmpeg_fails_on ''/music/b.wav''))
       (PosixPath True [''out'']) wav_config 0
       [PosixPath True [''music'', ''a.wav''], PosixPath True [''music'', ''b.wav''],
        PosixPath True [''music'', ''c.wav'']] initial_state
     = process_files (example_system (ffmpeg_fails_on ''/music/b.wav'')) (PosixPath True [''out''])
       wav_config 0
       [PosixPath True [''music'', ''a.wav''], PosixPath True [''music'', ''b.wav'']] initial_state"
    using failing [THEN conjunct2, THEN conjunct1, rule_format, OF example_files_fail] by simp
  have returned: "main (example_system ffmpeg_works) (example_args [''*.wav'', ''c.wav''])
      initial_state = (Inr (), snd (do_normalizing (example_system ffmpeg_works)
        (example_args [''*.wav'', ''c.wav'']) initial_state))"
    using working [THEN conjunct2, THEN conjunct2, rule_format, OF example_run_works]
    by (simp add: example_run_works)
  show ?thesis
    using printed stopped by (simp add: returned example_run_works)
qed

text \<open>
  Claim C7 as stated fails in \<open>terminates abnormally\<close>: on a machine without FFmpeg
  the error is printed and the process ends with exit status 0, as a run without any
  failure does.
\<close>

theorem main_exit_status_counterexample:
  "exit_status (fst (main (example_system ffmpeg_missing) (example_args [''a.wav'']) initial_state))
     = 0
   \<and> sys_stderr (snd (main (example_system ffmpeg_missing) (example_args [''a.wav''])
       initial_state))
     = [newline # ''ERROR: FFmpeg is not installed. Please install FFmpeg first.'']"
  by (simp add: example_run_missing exit_status_def)

subsection \<open>The gain of the encoding pass\<close>

text \<open>
  Claim C1. When the measuring pass of a file returns the peak \<open>v\<close>, the rest of the
  loop body is the encoding call with the gain \<open>max (abs v) 0\<close>: the second command of
  the file is the encoding command for that gain, whose argument after \<^verbatim>\<open>-af\<close> is
  \<^verbatim>\<open>volume=\<close>, the gain formatted with one decimal, and \<^verbatim>\<open>dB\<close>. This gain is
  \<open>abs v\<close> and never negative. A peak of \<open>-3.2\<close> gives \<open>3.2\<close>, a peak of \<open>0\<close> gives
  \<open>0\<close>, and a positive peak of \<open>2\<close> gives \<open>2\<close>: it is boosted, neither attenuated
  nor clamped to zero.
\<close>

theorem target_gain_passed_to_encode:
  assumes "ffmpeg_get_max_volume os (str in_path)
             (print (''> File '' @ str_nat (i + 1) @ '': '' @ name in_path) s) = (Inr v, s1)"
  shows "normalize_file os output_dir fc i in_path s
           = ffmpeg_convert_with_volume_filter os (str in_path)
               (str (get_out_path output_dir fc in_path)) (max \<bar>v\<bar> 0) fc
               (print (''    Encoding...'' @ [newline])
                  (print (''    Max volume: '' @ float_repr os v @ '' dB'') s1))
     \<and> commands (snd (normalize_file os output_dir fc i in_path s))
           = commands s @
             [detect_command (str in_path),
              encode_command os (str in_path) (str (get_out_path output_dir fc in_path))
                (max \<bar>v\<bar> 0) fc]
     \<and> encode_command os (str in_path) (str (get_out_path output_dir fc in_path)) (max \<bar>v\<bar> 0) fc ! 6
           = ''-af''
     \<and> encode_command os (str in_path) (str (get_out_path output_dir fc in_path)) (max \<bar>v\<bar> 0) fc ! 7
           = ''volume='' @ float_format_1f os (max \<bar>v\<bar> 0) @ ''dB''
     \<and> max \<bar>v\<bar> 0 = \<bar>v\<bar> \<and> 0 \<le> max \<bar>v\<bar> (0::rat)
     \<and> target_volume (- 32 / 10) = 32 / 10
     \<and> target_volume 0 = 0
     \<and> target_volume 2 = 2"
proof -
  let ?s0 = "print (''> File '' @ str_nat (i + 1) @ '': '' @ name in_path) s"
  let ?s2 = "print (''    Encoding...'' @ [newline])
               (print (''    Max volume: '' @ float_repr os v @ '' dB'') s1)"
  let ?out = "str (get_out_path output_dir fc in_path)"
  have run: "normalize_file os output_dir fc i in_path s
      = ffmpeg_convert_with_volume_filter os (str in_path) ?out (max \<bar>v\<bar> 0) fc ?s2"
    using normalize_file_encodes [OF assms] by (simp add: target_volume_def)
  have "commands s1 = commands ?s0 @ [detect_command (str in_path)]"
    using commands_ffmpeg_get_max_volume [of os "str in_path" ?s0] unfolding assms by simp
  then have c1: "commands ?s2 = commands s @ [detect_command (str in_path)]"
    by (simp add: commands_print)
  have cmds: "commands (snd (normalize_file os output_dir fc i in_path s))
      = commands s @ [detect_command (str in_path),
                      encode_command os (str in_path) ?out (max \<bar>v\<bar> 0) fc]"
    unfolding run commands_ffmpeg_convert c1 by simp
  have arg6: "encode_command os (str in_path) ?out (max \<bar>v\<bar> 0) fc ! 6 = ''-af''"
    by (simp add: encode_command_def)
  have arg7: "encode_command os (str in_path) ?out (max \<bar>v\<bar> 0) fc ! 7
      = ''volume='' @ float_format_1f os (max \<bar>v\<bar> 0) @ ''dB''"
    by (simp add: encode_command_def)
  have gain: "max \<bar>v\<bar> 0 = \<bar>v\<bar> \<and> 0 \<le> max \<bar>v\<bar> (0::rat)
     \<and> target_volume (- 32 / 10) = 32 / 10 \<and> target_volume 0 = 0 \<and> target_volume 2 = 2"
    by (simp add: target_volume_def)
  show ?thesis
    using run cmds arg6 arg7 gain by blast
qed

text \<open>
  The first file of the example environment, measured at \<open>-3.2\<close> dB, is encoded with
  \<^verbatim>\<open>volume=3.2dB\<close>.
\<close>

lemma example_detect:
  "ffmpeg_get_max_volume (example_system ffmpeg_works) (str (PosixPath True [''music'', ''a.wav'']))
     (print (''> File '' @ str_nat (0 + 1) @ '': '' @ name (PosixPath True [''music'', ''a.wav'']))
        initial_state)
   = (Inr (- 32 / 10),
      \<lparr>world = (), sys_stdout = [''> File 1: a.wav''], sys_stderr = [],
       commands = [detect_command ''/music/a.wav'']\<rparr>)"
  by (simp add: example_run_defs)

theorem target_gain_passed_to_encode_witness:
  "commands (snd (normalize_file (example_system ffmpeg_works) (PosixPath True [''out''])
       wav_config 0 (PosixPath True [''music'', ''a.wav'']) initial_state))
     = [[''ffmpeg'', ''-i'', ''/music/a.wav'', ''-map'', ''0:a:0'', ''-af'', ''volumedetect'',
         ''-f'', ''null'', ''null''],
        [''ffmpeg'', ''-y'', ''-i'', ''/music/a.wav'', ''-map'', ''0:a:0'',
         ''-af'', ''volume=3.2dB'', ''-c:a'', ''pcm_s16le'', ''/out/a-1.wav'']]"
  using target_gain_passed_to_encode [OF example_detect, of "PosixPath True [''out'']" wav_config]
  by (simp add: example_run_defs)

end
